theory Spec2Isabelle
  imports Main "HOL-Library.Word"
begin

unbundle bit_operations_syntax

section \<open>Machine integers\<close>

text \<open>
  Go's fixed-width integers are words: \<open>+\<close>, \<open>-\<close> and \<open>*\<close> wrap around, \<open>unat\<close> reads a
  word as unsigned and \<open>sint\<close> as two's complement. A conversion between \<open>int32\<close> and
  \<open>uint32\<close> keeps the bits, so both are \<open>32 word\<close> and the conversion is the identity.
  Go's \<open>int\<close> is 64 bits wide on the platforms the package is built for; the lengths of
  slices that fit in memory stay far below \<open>2 ^ 63\<close>, and are natural numbers here.
\<close>

type_synonym byte = "8 word"
type_synonym uint32 = "32 word"
type_synonym int32 = "32 word"
type_synonym int64 = "64 word"

section \<open>Errors (errors.go)\<close>

text \<open>
  The text of a formatted message is kept as a value of \<open>detail\<close>: which message it is
  and the values that were formatted into it.
\<close>

datatype detail =
    ProgramIsNil
  | BytecodeTooShort
  | BytecodeLengthMismatch uint32 nat
  | UnresolvedLabelName string
  | AtLine int
  | UnknownOpcode string
  | OpcodeNotYetImplemented byte
  | TruncNotYetImplemented
  | OpcodeRequiresOperand byte
  | OpcodeNoOperands byte
  | RequiresNumericOperand string
  | RequiresLabelOperand string
  | CustomRequiresNumericOperand
  | UnexpectedCharacter char int int
  | InvalidFloat string int int
  | InvalidInteger string int int
  | InvalidNumber string int int
  | UnexpectedToken nat int int
  | ExpectedOperand int int nat
  | ExpectedLabel
  | ExpectedInstruction

text \<open>
  An error value is one of the package's sentinel errors, an error made by \<open>fmt.Errorf\<close>
  (with \<open>%w\<close> it wraps another error, without it carries only a message), a \<open>VMError\<close>
  record, an \<open>AssemblerError\<close> record (its \<open>Message\<close> field is the text of the error
  kept here), the error of a cancelled or expired \<open>context.Context\<close>, or an error made by
  a host's instruction handler. \<open>RuntimePanic\<close> is not an error value: it stands for a
  run-time panic of the Go program (an index or a slice bound out of range).
\<close>

datatype error =
    ErrStackOverflow
  | ErrStackUnderflow
  | ErrInvalidMemoryAddress
  | ErrReadOnlyMemory
  | ErrInvalidInstruction
  | ErrInvalidOpcode
  | ErrInstructionLimit
  | ErrDivisionByZero
  | ErrTypeMismatch
  | ErrTimeout
  | ErrInvalidOperand
  | ErrInvalidProgram
  | ErrUnresolvedLabel
  | ErrorfW detail error
  | Errorf detail
  | VMError error int uint32 int byte string
  | AssemblerError int int error string
  | ContextCanceled
  | ContextDeadlineExceeded
  | HostError string
  | RuntimePanic

text \<open>\<open>errors.Is\<close>: walks the chain of wrapped errors (\<open>Unwrap\<close>, or the \<open>Is\<close> method of
  \<open>VMError\<close>, which delegates to the wrapped error).\<close>

fun errors_Is :: "error \<Rightarrow> error \<Rightarrow> bool" where
  "errors_Is (ErrorfW d e) target = (ErrorfW d e = target \<or> errors_Is e target)"
| "errors_Is (VMError e pc n sd opc msg) target =
     (VMError e pc n sd opc msg = target \<or> errors_Is e target)"
| "errors_Is e target = (e = target)"


section \<open>Instructions and programs (instruction.go, program)\<close>

type_synonym Opcode = byte

record Instruction =
  Opcode :: Opcode
  Operand :: int32

definition NewInstruction :: "Opcode \<Rightarrow> int32 \<Rightarrow> Instruction" where
  "NewInstruction opcode operand = \<lparr>Opcode = opcode, Operand = operand\<rparr>"

definition OpPUSH :: Opcode where "OpPUSH = 0"
definition OpPUSHI :: Opcode where "OpPUSHI = 1"
definition OpPOP :: Opcode where "OpPOP = 2"
definition OpDUP :: Opcode where "OpDUP = 3"
definition OpSWAP :: Opcode where "OpSWAP = 4"
definition OpOVER :: Opcode where "OpOVER = 5"
definition OpROT :: Opcode where "OpROT = 6"
definition OpADD :: Opcode where "OpADD = 16"
definition OpSUB :: Opcode where "OpSUB = 17"
definition OpMUL :: Opcode where "OpMUL = 18"
definition OpDIV :: Opcode where "OpDIV = 19"
definition OpMOD :: Opcode where "OpMOD = 20"
definition OpNEG :: Opcode where "OpNEG = 21"
definition OpABS :: Opcode where "OpABS = 22"
definition OpINC :: Opcode where "OpINC = 23"
definition OpDEC :: Opcode where "OpDEC = 24"
definition OpAND :: Opcode where "OpAND = 32"
definition OpOR :: Opcode where "OpOR = 33"
definition OpNOT :: Opcode where "OpNOT = 34"
definition OpXOR :: Opcode where "OpXOR = 35"
definition OpEQ :: Opcode where "OpEQ = 40"
definition OpNE :: Opcode where "OpNE = 41"
definition OpGT :: Opcode where "OpGT = 42"
definition OpLT :: Opcode where "OpLT = 43"
definition OpGE :: Opcode where "OpGE = 44"
definition OpLE :: Opcode where "OpLE = 45"
definition OpLOAD :: Opcode where "OpLOAD = 48"
definition OpSTORE :: Opcode where "OpSTORE = 49"
definition OpLOADD :: Opcode where "OpLOADD = 50"
definition OpSTORED :: Opcode where "OpSTORED = 51"
definition OpJMP :: Opcode where "OpJMP = 56"
definition OpJMPZ :: Opcode where "OpJMPZ = 57"
definition OpJMPNZ :: Opcode where "OpJMPNZ = 58"
definition OpCALL :: Opcode where "OpCALL = 59"
definition OpRET :: Opcode where "OpRET = 60"
definition OpHALT :: Opcode where "OpHALT = 61"
definition OpNOP :: Opcode where "OpNOP = 62"
definition OpSQRT :: Opcode where "OpSQRT = 64"
definition OpSIN :: Opcode where "OpSIN = 65"
definition OpCOS :: Opcode where "OpCOS = 66"
definition OpTAN :: Opcode where "OpTAN = 67"
definition OpASIN :: Opcode where "OpASIN = 68"
definition OpACOS :: Opcode where "OpACOS = 69"
definition OpATAN :: Opcode where "OpATAN = 70"
definition OpATAN2 :: Opcode where "OpATAN2 = 71"
definition OpLOG :: Opcode where "OpLOG = 72"
definition OpLOG10 :: Opcode where "OpLOG10 = 73"
definition OpEXP :: Opcode where "OpEXP = 74"
definition OpPOW :: Opcode where "OpPOW = 75"
definition OpMIN :: Opcode where "OpMIN = 76"
definition OpMAX :: Opcode where "OpMAX = 77"
definition OpFLOOR :: Opcode where "OpFLOOR = 78"
definition OpCEIL :: Opcode where "OpCEIL = 79"
definition OpROUND :: Opcode where "OpROUND = 80"
definition OpTRUNC :: Opcode where "OpTRUNC = 81"

text \<open>
  \<open>ProgramMetadata\<close>: four strings and a creation time (an opaque number here).
  \<open>SimpleProgram\<close>: the instruction slice, the symbol table (\<open>None\<close> is the nil map) and
  the metadata. A nil instruction slice is the empty list.
\<close>

record ProgramMetadata =
  Name :: string
  Version :: string
  Author :: string
  Description :: string
  Created :: int

definition zero_metadata :: ProgramMetadata where
  "zero_metadata = \<lparr>Name = [], Version = [], Author = [], Description = [], Created = 0\<rparr>"

record Program =
  instructions :: "Instruction list"
  symbols :: "(int \<times> string) list option"
  metadata :: ProgramMetadata

definition NewProgram :: "Instruction list \<Rightarrow> Program" where
  "NewProgram instrs = \<lparr>instructions = instrs, symbols = None, metadata = zero_metadata\<rparr>"

definition NewProgramWithMetadata :: "Instruction list \<Rightarrow> ProgramMetadata \<Rightarrow> Program" where
  "NewProgramWithMetadata instrs md = \<lparr>instructions = instrs, symbols = None, metadata = md\<rparr>"

section \<open>Binary codec (EncodeProgram, DecodeProgram)\<close>

text \<open>\<open>binary.LittleEndian.PutUint32\<close> and \<open>Uint32\<close> on a four-byte slice.\<close>

definition PutUint32 :: "uint32 \<Rightarrow> byte list" where
  "PutUint32 v = [ucast v, ucast (drop_bit 8 v), ucast (drop_bit 16 v), ucast (drop_bit 24 v)]"

definition Uint32 :: "byte list \<Rightarrow> uint32" where
  "Uint32 b = ucast (b ! 0) OR push_bit 8 (ucast (b ! 1)) OR push_bit 16 (ucast (b ! 2))
     OR push_bit 24 (ucast (b ! 3))"

text \<open>Writing the bytes \<open>src\<close> into the buffer at \<open>offset\<close> (the slice \<open>dst[offset:offset+n]\<close>
  is within the buffer wherever the encoder uses it).\<close>

definition write_at :: "byte list \<Rightarrow> nat \<Rightarrow> byte list \<Rightarrow> byte list" where
  "write_at dst offset src = take offset dst @ src @ drop (offset + length src) dst"

text \<open>The encoder's loop over the instructions: the opcode byte at \<open>offset\<close>, then the
  operand as \<open>uint32\<close>, little-endian, in the next four bytes.\<close>

fun encode_loop :: "Instruction list \<Rightarrow> nat \<Rightarrow> byte list \<Rightarrow> byte list" where
  "encode_loop [] offset bytecode = bytecode"
| "encode_loop (instr # rest) offset bytecode =
     encode_loop rest (offset + 1 + 4)
       (write_at (bytecode[offset := Opcode instr]) (offset + 1) (PutUint32 (Operand instr)))"

text \<open>\<open>EncodeProgram\<close>: \<open>None\<close> is the nil \<open>Program\<close> interface. The header is
  \<open>uint32(len(instructions))\<close>, the length reduced modulo \<open>2 ^ 32\<close>.\<close>

definition EncodeProgram :: "Program option \<Rightarrow> error + byte list" where
  "EncodeProgram program =
     (case program of
        None \<Rightarrow> Inl (ErrorfW ProgramIsNil ErrInvalidProgram)
      | Some p \<Rightarrow>
          (let instrs = instructions p;
               totalSize = 4 + length instrs * 5;
               bytecode = replicate totalSize (0 :: byte);
               bytecode = write_at bytecode 0 (PutUint32 (word_of_nat (length instrs)))
           in Inr (encode_loop instrs 4 bytecode)))"

text \<open>
  The decoder's loop, \<open>for i := uint32(0); i < instrCount; i++\<close>. Indexing \<open>data[offset]\<close>
  panics when \<open>offset\<close> is not below the length, and so does the slice
  \<open>data[offset:offset+4]\<close> when it ends beyond the buffer (a slice whose capacity is its
  length, as a buffer read or built for decoding is). The slice \<open>instructions\<close> of
  \<open>instrCount\<close> zero records is filled front to back, so it is the list of the records
  decoded so far.
\<close>

function decode_loop ::
  "byte list \<Rightarrow> nat \<Rightarrow> nat \<Rightarrow> nat \<Rightarrow> Instruction list \<Rightarrow> error + Instruction list" where
  "decode_loop data instrCount i offset instrs =
     (if i < instrCount then
        (if \<not> offset < length data then Inl RuntimePanic
         else if length data < offset + 1 + 4 then Inl RuntimePanic
         else decode_loop data instrCount (i + 1) (offset + 1 + 4)
                (instrs @ [\<lparr>Opcode = data ! offset,
                             Operand = Uint32 (take 4 (drop (offset + 1) data))\<rparr>]))
      else Inr instrs)"
  by pat_completeness auto
termination
  by (relation "measure (\<lambda>(data, instrCount, i, offset, instrs). instrCount - i)") auto

declare decode_loop.simps [simp del]

text \<open>\<open>DecodeProgram\<close>: the expected size is computed in \<open>uint32\<close>, and compared with
  \<open>uint32(len(data))\<close>.\<close>

definition DecodeProgram :: "byte list \<Rightarrow> error + Program" where
  "DecodeProgram data =
     (if length data < 4 then Inl (ErrorfW BytecodeTooShort ErrInvalidProgram)
      else
        (let instrCount = Uint32 (take 4 data);
             expectedSize = 4 + instrCount * 5
         in if (word_of_nat (length data) :: uint32) \<noteq> expectedSize
            then Inl (ErrorfW (BytecodeLengthMismatch expectedSize (length data)) ErrInvalidProgram)
            else (case decode_loop data (unat instrCount) 0 4 [] of
                    Inl e \<Rightarrow> Inl e
                  | Inr instrs \<Rightarrow> Inr (NewProgram instrs))))"

text \<open>The wire form of one instruction, and of an instruction vector.\<close>

definition record_bytes :: "Instruction \<Rightarrow> byte list" where
  "record_bytes instr = Opcode instr # PutUint32 (Operand instr)"

definition body_bytes :: "Instruction list \<Rightarrow> byte list" where
  "body_bytes instrs = concat (map record_bytes instrs)"



section \<open>Floating point\<close>

text \<open>
  A \<open>float64\<close> is its IEEE 754 binary64 bit pattern: sign (bit 63), biased exponent
  (bits 52 to 62) and fraction (bits 0 to 51). What the language defines exactly is
  defined here: the comparisons, negation, the conversion from an integer (rounding to
  nearest, ties to even, when the integer has more than 53 significant bits) and the
  truncating conversion to an integer of a value in range. The operations that round, the
  functions of package \<open>math\<close>, and the result of converting a value that the integer type
  cannot represent (implementation-dependent in Go) are parameters, in a record \<open>fpu\<close>.
\<close>

datatype float64 = Float64frombits (Float64bits: "64 word")

definition f64_frac :: "float64 \<Rightarrow> nat" where
  "f64_frac f = unat (Float64bits f AND 0xFFFFFFFFFFFFF)"

definition f64_exp :: "float64 \<Rightarrow> nat" where
  "f64_exp f = unat (drop_bit 52 (Float64bits f) AND 0x7FF)"

definition f64_sign :: "float64 \<Rightarrow> bool" where
  "f64_sign f = bit (Float64bits f) 63"

definition f64_isNaN :: "float64 \<Rightarrow> bool" where
  "f64_isNaN f = (f64_exp f = 0x7FF \<and> f64_frac f \<noteq> 0)"

definition f64_isInf :: "float64 \<Rightarrow> bool" where
  "f64_isInf f = (f64_exp f = 0x7FF \<and> f64_frac f = 0)"

definition f64_isZero :: "float64 \<Rightarrow> bool" where
  "f64_isZero f = (Float64bits f AND 0x7FFFFFFFFFFFFFFF = 0)"

text \<open>The order of two floats that are not NaN is the order of their sign-magnitude keys.\<close>

definition f64_key :: "float64 \<Rightarrow> int" where
  "f64_key f = (let mag = uint (Float64bits f AND 0x7FFFFFFFFFFFFFFF)
                in if f64_sign f then - mag else mag)"

definition f64_eq :: "float64 \<Rightarrow> float64 \<Rightarrow> bool" where
  "f64_eq a b = (\<not> f64_isNaN a \<and> \<not> f64_isNaN b \<and> f64_key a = f64_key b)"

definition f64_lt :: "float64 \<Rightarrow> float64 \<Rightarrow> bool" where
  "f64_lt a b = (\<not> f64_isNaN a \<and> \<not> f64_isNaN b \<and> f64_key a < f64_key b)"

definition f64_le :: "float64 \<Rightarrow> float64 \<Rightarrow> bool" where
  "f64_le a b = (\<not> f64_isNaN a \<and> \<not> f64_isNaN b \<and> f64_key a \<le> f64_key b)"

definition f64_neg :: "float64 \<Rightarrow> float64" where
  "f64_neg f = Float64frombits (Float64bits f XOR 0x8000000000000000)"

text \<open>The number of binary digits of a natural number.\<close>

fun bit_length :: "nat \<Rightarrow> nat" where
  "bit_length n = (if n = 0 then 0 else Suc (bit_length (n div 2)))"

declare bit_length.simps [simp del]

text \<open>\<open>float64(i)\<close> for an integer \<open>i\<close> of at most 64 bits.\<close>

definition f64_of_int :: "int \<Rightarrow> float64" where
  "f64_of_int i =
     (if i = 0 then Float64frombits 0
      else
        (let m = nat \<bar>i\<bar>;
             e = bit_length m - 1;
             s = (if i < 0 then (0x8000000000000000 :: 64 word) else 0);
             (q, e') =
               (if e \<le> 52 then (m * 2 ^ (52 - e), e)
                else
                  (let sh = e - 52;
                       q0 = m div 2 ^ sh;
                       r = m mod 2 ^ sh;
                       half = 2 ^ (sh - 1);
                       q1 = (if half < r \<or> (r = half \<and> odd q0) then q0 + 1 else q0)
                   in if q1 = 2 ^ 53 then (2 ^ 52, e + 1) else (q1, e)))
         in Float64frombits
              (s OR push_bit 52 (word_of_nat (1023 + e')) OR word_of_nat (q - 2 ^ 52))))"

record fpu =
  f_add :: "float64 \<Rightarrow> float64 \<Rightarrow> float64"
  f_sub :: "float64 \<Rightarrow> float64 \<Rightarrow> float64"
  f_mul :: "float64 \<Rightarrow> float64 \<Rightarrow> float64"
  f_div :: "float64 \<Rightarrow> float64 \<Rightarrow> float64"
  math_Sqrt :: "float64 \<Rightarrow> float64"
  math_Sin :: "float64 \<Rightarrow> float64"
  math_Cos :: "float64 \<Rightarrow> float64"
  math_Tan :: "float64 \<Rightarrow> float64"
  math_Asin :: "float64 \<Rightarrow> float64"
  math_Acos :: "float64 \<Rightarrow> float64"
  math_Atan :: "float64 \<Rightarrow> float64"
  math_Atan2 :: "float64 \<Rightarrow> float64 \<Rightarrow> float64"
  math_Log :: "float64 \<Rightarrow> float64"
  math_Log10 :: "float64 \<Rightarrow> float64"
  math_Exp :: "float64 \<Rightarrow> float64"
  math_Pow :: "float64 \<Rightarrow> float64 \<Rightarrow> float64"
  math_Min :: "float64 \<Rightarrow> float64 \<Rightarrow> float64"
  math_Max :: "float64 \<Rightarrow> float64 \<Rightarrow> float64"
  math_Floor :: "float64 \<Rightarrow> float64"
  math_Ceil :: "float64 \<Rightarrow> float64"
  math_Round :: "float64 \<Rightarrow> float64"
  math_Trunc :: "float64 \<Rightarrow> float64"
  int64_unrepresentable :: "float64 \<Rightarrow> int64"
  int32_unrepresentable :: "float64 \<Rightarrow> int32"

text \<open>The integer part of a finite float, towards zero.\<close>

definition f64_trunc :: "float64 \<Rightarrow> int" where
  "f64_trunc f =
     (let m = (if f64_exp f = 0 then f64_frac f else 2 ^ 52 + f64_frac f);
          e = (if f64_exp f = 0 then 1 else f64_exp f);
          a = (if 1075 \<le> e then m * 2 ^ (e - 1075) else m div 2 ^ (1075 - e))
      in if f64_sign f then - int a else int a)"

text \<open>\<open>int64(f)\<close> and \<open>int32(f)\<close>.\<close>

definition f64_to_int64 :: "fpu \<Rightarrow> float64 \<Rightarrow> int64" where
  "f64_to_int64 u f =
     (if f64_exp f = 0x7FF \<or> f64_trunc f < - (2 ^ 63) \<or> 2 ^ 63 \<le> f64_trunc f
      then int64_unrepresentable u f
      else word_of_int (f64_trunc f))"

definition f64_to_int32 :: "fpu \<Rightarrow> float64 \<Rightarrow> int32" where
  "f64_to_int32 u f =
     (if f64_exp f = 0x7FF \<or> f64_trunc f < - (2 ^ 31) \<or> 2 ^ 31 \<le> f64_trunc f
      then int32_unrepresentable u f
      else word_of_int (f64_trunc f))"

section \<open>Values (value)\<close>

text \<open>
  A \<open>Value\<close> is a type tag and a datum of any Go type (\<open>interface{}\<close>); nothing ties the
  two together, and the accessors check both. The data of a host's custom values are
  opaque, and taken to be comparable.
\<close>

type_synonym ValueType = byte

definition TypeNil :: ValueType where "TypeNil = 0"
definition TypeFloat :: ValueType where "TypeFloat = 1"
definition TypeInt :: ValueType where "TypeInt = 2"
definition TypeBool :: ValueType where "TypeBool = 3"
definition TypeString :: ValueType where "TypeString = 4"

datatype data =
    NilData
  | Float64Data float64
  | Int64Data int64
  | BoolData bool
  | StringData string
  | HostData nat

record Value =
  Type :: ValueType
  Data :: data

definition NilValue :: Value where
  "NilValue = \<lparr>Type = TypeNil, Data = NilData\<rparr>"

definition FloatValue :: "float64 \<Rightarrow> Value" where
  "FloatValue v = \<lparr>Type = TypeFloat, Data = Float64Data v\<rparr>"

definition IntValue :: "int64 \<Rightarrow> Value" where
  "IntValue v = \<lparr>Type = TypeInt, Data = Int64Data v\<rparr>"

definition BoolValue :: "bool \<Rightarrow> Value" where
  "BoolValue v = \<lparr>Type = TypeBool, Data = BoolData v\<rparr>"

definition StringValue :: "string \<Rightarrow> Value" where
  "StringValue v = \<lparr>Type = TypeString, Data = StringData v\<rparr>"

definition CustomValue :: "ValueType \<Rightarrow> data \<Rightarrow> Value" where
  "CustomValue typ d = \<lparr>Type = typ, Data = d\<rparr>"

text \<open>The accessors return the zero value of the type together with the error.\<close>

definition AsFloat :: "Value \<Rightarrow> float64 \<times> error option" where
  "AsFloat v =
     (if Type v \<noteq> TypeFloat then (Float64frombits 0, Some ErrTypeMismatch)
      else (case Data v of
              Float64Data f \<Rightarrow> (f, None)
            | _ \<Rightarrow> (Float64frombits 0, Some ErrTypeMismatch)))"

definition AsInt :: "Value \<Rightarrow> int64 \<times> error option" where
  "AsInt v =
     (if Type v \<noteq> TypeInt then (0, Some ErrTypeMismatch)
      else (case Data v of
              Int64Data i \<Rightarrow> (i, None)
            | _ \<Rightarrow> (0, Some ErrTypeMismatch)))"

definition AsBool :: "Value \<Rightarrow> bool \<times> error option" where
  "AsBool v =
     (if Type v \<noteq> TypeBool then (False, Some ErrTypeMismatch)
      else (case Data v of
              BoolData b \<Rightarrow> (b, None)
            | _ \<Rightarrow> (False, Some ErrTypeMismatch)))"

definition AsString :: "Value \<Rightarrow> string \<times> error option" where
  "AsString v =
     (if Type v \<noteq> TypeString then ([], Some ErrTypeMismatch)
      else (case Data v of
              StringData s \<Rightarrow> (s, None)
            | _ \<Rightarrow> ([], Some ErrTypeMismatch)))"

definition IsTruthy :: "Value \<Rightarrow> bool" where
  "IsTruthy v =
     (if Type v = TypeNil then False
      else if Type v = TypeFloat then \<not> f64_eq (fst (AsFloat v)) (Float64frombits 0)
      else if Type v = TypeInt then fst (AsInt v) \<noteq> 0
      else if Type v = TypeBool then fst (AsBool v)
      else if Type v = TypeString then fst (AsString v) \<noteq> []
      else False)"

text \<open>Equality of two data as Go compares interface values: floats by \<open>==\<close>.\<close>

fun data_equal :: "data \<Rightarrow> data \<Rightarrow> bool" where
  "data_equal (Float64Data a) (Float64Data b) = f64_eq a b"
| "data_equal a b = (a = b)"

definition Equal :: "Value \<Rightarrow> Value \<Rightarrow> bool" where
  "Equal v other =
     (if Type v \<noteq> Type other then False
      else if Type v = TypeNil then True
      else if Type v = TypeFloat then f64_eq (fst (AsFloat v)) (fst (AsFloat other))
      else if Type v = TypeInt then fst (AsInt v) = fst (AsInt other)
      else if Type v = TypeBool then fst (AsBool v) = fst (AsBool other)
      else if Type v = TypeString then fst (AsString v) = fst (AsString other)
      else data_equal (Data v) (Data other))"

section \<open>Memory\<close>

text \<open>
  \<open>Memory\<close> is an interface, which a host system can implement: the executor knows of a
  memory only its methods. A memory is modelled as what its methods answer: \<open>Load\<close> at an
  index gives the value and the error and the memory after the call, \<open>Store\<close> of a value at
  an index gives the memory after the call and the error. The state that an implementation
  keeps behind the interface is whatever determines the answers to come. (\<open>Size\<close>, which
  the executor never calls, is left out. A memory is an implementation of the interface,
  not the nil interface.)
\<close>

codatatype Memory =
  Memory (Load: "int \<Rightarrow> (Value \<times> error option) \<times> Memory")
         (Store: "int \<Rightarrow> Value \<Rightarrow> Memory \<times> error option")

text \<open>\<open>SimpleMemory\<close>, the implementation of the package: a slice of values, with its
  methods \<open>Load\<close> and \<open>Store\<close>.\<close>

definition SimpleMemory_Load :: "Value list \<Rightarrow> int \<Rightarrow> Value \<times> error option" where
  "SimpleMemory_Load m index =
     (if index < 0 \<or> int (length m) \<le> index then (NilValue, Some ErrInvalidMemoryAddress)
      else (m ! nat index, None))"

definition SimpleMemory_Store :: "Value list \<Rightarrow> int \<Rightarrow> Value \<Rightarrow> Value list \<times> error option" where
  "SimpleMemory_Store m index v =
     (if index < 0 \<or> int (length m) \<le> index then (m, Some ErrInvalidMemoryAddress)
      else (m[nat index := v], None))"

text \<open>A \<open>SimpleMemory\<close> seen through the interface: \<open>Load\<close> leaves the slice as it is,
  \<open>Store\<close> leaves the slice that it has written to.\<close>

primcorec SimpleMemory :: "Value list \<Rightarrow> Memory" where
  "SimpleMemory m =
     Memory (\<lambda>index. (SimpleMemory_Load m index, SimpleMemory m))
            (\<lambda>index v. (SimpleMemory (fst (SimpleMemory_Store m index v)),
                         snd (SimpleMemory_Store m index v)))"

definition NewSimpleMemory :: "nat \<Rightarrow> Memory" where
  "NewSimpleMemory n = SimpleMemory (replicate n NilValue)"

section \<open>Standard instruction handlers (ops)\<close>

text \<open>
  The operand stack is a slice whose last element is the top. A handler takes the stack
  and returns the new stack and an error (\<open>None\<close> is nil); on an error the stack it
  returns is the one the executor keeps.
\<close>

definition toFloat64 :: "Value \<Rightarrow> float64 \<times> error option" where
  "toFloat64 v =
     (if Type v = TypeFloat then AsFloat v
      else if Type v = TypeInt then
        (case AsInt v of
           (i, Some err) \<Rightarrow> (Float64frombits 0, Some err)
         | (i, None) \<Rightarrow> (f64_of_int (sint i), None))
      else (Float64frombits 0, Some ErrTypeMismatch))"

definition toInt64 :: "fpu \<Rightarrow> Value \<Rightarrow> int64 \<times> error option" where
  "toInt64 u v =
     (if Type v = TypeInt then AsInt v
      else if Type v = TypeFloat then
        (case AsFloat v of
           (f, Some err) \<Rightarrow> (0, Some err)
         | (f, None) \<Rightarrow> (f64_to_int64 u f, None))
      else (0, Some ErrTypeMismatch))"

definition toBool :: "Value \<Rightarrow> bool" where
  "toBool v = IsTruthy v"

definition numericOp ::
  "Value \<Rightarrow> Value \<Rightarrow> (float64 \<Rightarrow> float64 \<Rightarrow> float64) \<Rightarrow> Value \<times> error option" where
  "numericOp a b op =
     (case toFloat64 a of
        (aVal, Some err) \<Rightarrow> (NilValue, Some err)
      | (aVal, None) \<Rightarrow>
          (case toFloat64 b of
             (bVal, Some err) \<Rightarrow> (NilValue, Some err)
           | (bVal, None) \<Rightarrow> (FloatValue (op aVal bVal), None)))"

definition unaryOp :: "Value \<Rightarrow> (float64 \<Rightarrow> float64) \<Rightarrow> Value \<times> error option" where
  "unaryOp v op =
     (case toFloat64 v of
        (val, Some err) \<Rightarrow> (NilValue, Some err)
      | (val, None) \<Rightarrow> (FloatValue (op val), None))"

text \<open>The shape shared by \<open>opAdd\<close>, \<open>opSub\<close> and \<open>opMul\<close>: pop \<open>b\<close>, pop \<open>a\<close>, apply
  \<open>numericOp\<close>, push the result.\<close>

definition numeric_binary ::
  "(float64 \<Rightarrow> float64 \<Rightarrow> float64) \<Rightarrow> Value list \<Rightarrow> Value list \<times> error option" where
  "numeric_binary op stack =
     (if length stack < 2 then (stack, Some ErrStackUnderflow)
      else
        (let b = stack ! (length stack - 1);
             a = stack ! (length stack - 2);
             stack = take (length stack - 2) stack
         in case numericOp a b op of
              (result, Some err) \<Rightarrow> (stack, Some err)
            | (result, None) \<Rightarrow> (stack @ [result], None)))"

definition opAdd :: "fpu \<Rightarrow> Value list \<Rightarrow> Value list \<times> error option" where
  "opAdd u stack = numeric_binary (f_add u) stack"

definition opSub :: "fpu \<Rightarrow> Value list \<Rightarrow> Value list \<times> error option" where
  "opSub u stack = numeric_binary (f_sub u) stack"

definition opMul :: "fpu \<Rightarrow> Value list \<Rightarrow> Value list \<times> error option" where
  "opMul u stack = numeric_binary (f_mul u) stack"

definition opDiv :: "fpu \<Rightarrow> Value list \<Rightarrow> Value list \<times> error option" where
  "opDiv u stack =
     (if length stack < 2 then (stack, Some ErrStackUnderflow)
      else
        (let b = stack ! (length stack - 1);
             a = stack ! (length stack - 2);
             stack = take (length stack - 2) stack
         in case toFloat64 b of
              (bVal, Some err) \<Rightarrow> (stack, Some err)
            | (bVal, None) \<Rightarrow>
                if f64_eq bVal (Float64frombits 0) then (stack, Some ErrDivisionByZero)
                else (case numericOp a b (f_div u) of
                        (result, Some err) \<Rightarrow> (stack, Some err)
                      | (result, None) \<Rightarrow> (stack @ [result], None))))"

text \<open>Go's \<open>%\<close> on \<open>int64\<close>: the remainder of the division that truncates towards zero.\<close>

definition int64_rem :: "int64 \<Rightarrow> int64 \<Rightarrow> int64" where
  "int64_rem a b = word_of_int (sgn (sint a) * (\<bar>sint a\<bar> mod \<bar>sint b\<bar>))"

definition opMod :: "fpu \<Rightarrow> Value list \<Rightarrow> Value list \<times> error option" where
  "opMod u stack =
     (if length stack < 2 then (stack, Some ErrStackUnderflow)
      else
        (let b = stack ! (length stack - 1);
             a = stack ! (length stack - 2);
             stack = take (length stack - 2) stack
         in case toInt64 u a of
              (aVal, Some err) \<Rightarrow> (stack, Some err)
            | (aVal, None) \<Rightarrow>
                (case toInt64 u b of
                   (bVal, Some err) \<Rightarrow> (stack, Some err)
                 | (bVal, None) \<Rightarrow>
                     if bVal = 0 then (stack, Some ErrDivisionByZero)
                     else (stack @ [IntValue (int64_rem aVal bVal)], None))))"

text \<open>The shape shared by \<open>opNeg\<close>, \<open>opInc\<close> and \<open>opDec\<close>: pop, apply \<open>unaryOp\<close>, push.\<close>

definition numeric_unary ::
  "(float64 \<Rightarrow> float64) \<Rightarrow> Value list \<Rightarrow> Value list \<times> error option" where
  "numeric_unary op stack =
     (if length stack < 1 then (stack, Some ErrStackUnderflow)
      else
        (let a = stack ! (length stack - 1);
             stack = take (length stack - 1) stack
         in case unaryOp a op of
              (result, Some err) \<Rightarrow> (stack, Some err)
            | (result, None) \<Rightarrow> (stack @ [result], None)))"

definition opNeg :: "Value list \<Rightarrow> Value list \<times> error option" where
  "opNeg stack = numeric_unary f64_neg stack"

definition opAbs :: "Value list \<Rightarrow> Value list \<times> error option" where
  "opAbs stack =
     (if length stack < 1 then (stack, Some ErrStackUnderflow)
      else
        (let a = stack ! (length stack - 1);
             stack = take (length stack - 1) stack
         in case toFloat64 a of
              (aVal, Some err) \<Rightarrow> (stack, Some err)
            | (aVal, None) \<Rightarrow>
                (let result = (if f64_lt aVal (Float64frombits 0) then f64_neg aVal else aVal)
                 in (stack @ [FloatValue result], None))))"

definition opInc :: "fpu \<Rightarrow> Value list \<Rightarrow> Value list \<times> error option" where
  "opInc u stack = numeric_unary (\<lambda>x. f_add u x (f64_of_int 1)) stack"

definition opDec :: "fpu \<Rightarrow> Value list \<Rightarrow> Value list \<times> error option" where
  "opDec u stack = numeric_unary (\<lambda>x. f_sub u x (f64_of_int 1)) stack"

text \<open>The shape shared by \<open>opAnd\<close>, \<open>opOr\<close>, \<open>opXor\<close>, \<open>opEq\<close> and \<open>opNe\<close>: pop \<open>b\<close>, pop
  \<open>a\<close>, push a boolean; they have no error but the underflow.\<close>

definition bool_binary ::
  "(Value \<Rightarrow> Value \<Rightarrow> bool) \<Rightarrow> Value list \<Rightarrow> Value list \<times> error option" where
  "bool_binary op stack =
     (if length stack < 2 then (stack, Some ErrStackUnderflow)
      else
        (let b = stack ! (length stack - 1);
             a = stack ! (length stack - 2);
             stack = take (length stack - 2) stack
         in (stack @ [BoolValue (op a b)], None)))"

definition opAnd :: "Value list \<Rightarrow> Value list \<times> error option" where
  "opAnd stack = bool_binary (\<lambda>a b. IsTruthy a \<and> IsTruthy b) stack"

definition opOr :: "Value list \<Rightarrow> Value list \<times> error option" where
  "opOr stack = bool_binary (\<lambda>a b. IsTruthy a \<or> IsTruthy b) stack"

definition opNot :: "Value list \<Rightarrow> Value list \<times> error option" where
  "opNot stack =
     (if length stack < 1 then (stack, Some ErrStackUnderflow)
      else
        (let a = stack ! (length stack - 1);
             stack = take (length stack - 1) stack
         in (stack @ [BoolValue (\<not> IsTruthy a)], None)))"

definition opXor :: "Value list \<Rightarrow> Value list \<times> error option" where
  "opXor stack =
     bool_binary (\<lambda>a b. (IsTruthy a \<or> IsTruthy b) \<and> \<not> (IsTruthy a \<and> IsTruthy b)) stack"

definition opEq :: "Value list \<Rightarrow> Value list \<times> error option" where
  "opEq stack = bool_binary (\<lambda>a b. Equal a b) stack"

definition opNe :: "Value list \<Rightarrow> Value list \<times> error option" where
  "opNe stack = bool_binary (\<lambda>a b. \<not> Equal a b) stack"

text \<open>The shape shared by \<open>opGt\<close>, \<open>opLt\<close>, \<open>opGe\<close> and \<open>opLe\<close> (a boolean result) and by
  \<open>opAtan2\<close>, \<open>opPow\<close>, \<open>opMin\<close> and \<open>opMax\<close> (a float result): pop \<open>b\<close>, pop \<open>a\<close>,
  convert \<open>a\<close> and then \<open>b\<close> to floats, push the result.\<close>

definition float_binary ::
  "(float64 \<Rightarrow> float64 \<Rightarrow> Value) \<Rightarrow> Value list \<Rightarrow> Value list \<times> error option" where
  "float_binary op stack =
     (if length stack < 2 then (stack, Some ErrStackUnderflow)
      else
        (let b = stack ! (length stack - 1);
             a = stack ! (length stack - 2);
             stack = take (length stack - 2) stack
         in case toFloat64 a of
              (aVal, Some err) \<Rightarrow> (stack, Some err)
            | (aVal, None) \<Rightarrow>
                (case toFloat64 b of
                   (bVal, Some err) \<Rightarrow> (stack, Some err)
                 | (bVal, None) \<Rightarrow> (stack @ [op aVal bVal], None))))"

definition opGt :: "Value list \<Rightarrow> Value list \<times> error option" where
  "opGt stack = float_binary (\<lambda>aVal bVal. BoolValue (f64_lt bVal aVal)) stack"

definition opLt :: "Value list \<Rightarrow> Value list \<times> error option" where
  "opLt stack = float_binary (\<lambda>aVal bVal. BoolValue (f64_lt aVal bVal)) stack"

definition opGe :: "Value list \<Rightarrow> Value list \<times> error option" where
  "opGe stack = float_binary (\<lambda>aVal bVal. BoolValue (f64_le bVal aVal)) stack"

definition opLe :: "Value list \<Rightarrow> Value list \<times> error option" where
  "opLe stack = float_binary (\<lambda>aVal bVal. BoolValue (f64_le aVal bVal)) stack"

definition mathUnaryOp ::
  "Value list \<Rightarrow> (float64 \<Rightarrow> float64) \<Rightarrow> Value list \<times> error option" where
  "mathUnaryOp stack op =
     (if length stack < 1 then (stack, Some ErrStackUnderflow)
      else
        (let a = stack ! (length stack - 1);
             stack = take (length stack - 1) stack
         in case toFloat64 a of
              (aVal, Some err) \<Rightarrow> (stack, Some err)
            | (aVal, None) \<Rightarrow> (stack @ [FloatValue (op aVal)], None)))"

definition opSqrt :: "fpu \<Rightarrow> Value list \<Rightarrow> Value list \<times> error option" where
  "opSqrt u stack = mathUnaryOp stack (math_Sqrt u)"

definition opSin :: "fpu \<Rightarrow> Value list \<Rightarrow> Value list \<times> error option" where
  "opSin u stack = mathUnaryOp stack (math_Sin u)"

definition opCos :: "fpu \<Rightarrow> Value list \<Rightarrow> Value list \<times> error option" where
  "opCos u stack = mathUnaryOp stack (math_Cos u)"

definition opTan :: "fpu \<Rightarrow> Value list \<Rightarrow> Value list \<times> error option" where
  "opTan u stack = mathUnaryOp stack (math_Tan u)"

definition opAsin :: "fpu \<Rightarrow> Value list \<Rightarrow> Value list \<times> error option" where
  "opAsin u stack = mathUnaryOp stack (math_Asin u)"

definition opAcos :: "fpu \<Rightarrow> Value list \<Rightarrow> Value list \<times> error option" where
  "opAcos u stack = mathUnaryOp stack (math_Acos u)"

definition opAtan :: "fpu \<Rightarrow> Value list \<Rightarrow> Value list \<times> error option" where
  "opAtan u stack = mathUnaryOp stack (math_Atan u)"

definition opAtan2 :: "fpu \<Rightarrow> Value list \<Rightarrow> Value list \<times> error option" where
  "opAtan2 u stack = float_binary (\<lambda>yVal xVal. FloatValue (math_Atan2 u yVal xVal)) stack"

definition opLog :: "fpu \<Rightarrow> Value list \<Rightarrow> Value list \<times> error option" where
  "opLog u stack = mathUnaryOp stack (math_Log u)"

definition opLog10 :: "fpu \<Rightarrow> Value list \<Rightarrow> Value list \<times> error option" where
  "opLog10 u stack = mathUnaryOp stack (math_Log10 u)"

definition opExp :: "fpu \<Rightarrow> Value list \<Rightarrow> Value list \<times> error option" where
  "opExp u stack = mathUnaryOp stack (math_Exp u)"

definition opPow :: "fpu \<Rightarrow> Value list \<Rightarrow> Value list \<times> error option" where
  "opPow u stack = float_binary (\<lambda>aVal bVal. FloatValue (math_Pow u aVal bVal)) stack"

definition opMin :: "fpu \<Rightarrow> Value list \<Rightarrow> Value list \<times> error option" where
  "opMin u stack = float_binary (\<lambda>aVal bVal. FloatValue (math_Min u aVal bVal)) stack"

definition opMax :: "fpu \<Rightarrow> Value list \<Rightarrow> Value list \<times> error option" where
  "opMax u stack = float_binary (\<lambda>aVal bVal. FloatValue (math_Max u aVal bVal)) stack"

definition opFloor :: "fpu \<Rightarrow> Value list \<Rightarrow> Value list \<times> error option" where
  "opFloor u stack = mathUnaryOp stack (math_Floor u)"

definition opCeil :: "fpu \<Rightarrow> Value list \<Rightarrow> Value list \<times> error option" where
  "opCeil u stack = mathUnaryOp stack (math_Ceil u)"

definition opRound :: "fpu \<Rightarrow> Value list \<Rightarrow> Value list \<times> error option" where
  "opRound u stack = mathUnaryOp stack (math_Round u)"

definition opTrunc :: "fpu \<Rightarrow> Value list \<Rightarrow> Value list \<times> error option" where
  "opTrunc u stack = mathUnaryOp stack (math_Trunc u)"

section \<open>Execution context and registry (registry.go, context.go, vm.go)\<close>

text \<open>
  What a custom instruction handler can reach through its \<open>ExecutionContext\<close>: the
  executor's stack, program counter, halted flag and instruction counter, the stack size
  of its configuration (read by \<open>Push\<close>), the memory of the execution, and the user data
  of the context. The context holds pointers to the executor and the memory; here it holds
  their contents, which the executor takes back when the handler returns.
\<close>

record executionContextImpl =
  vm_StackSize :: int
  vm_stack :: "Value list"
  vm_pc :: int64
  vm_halted :: bool
  vm_instrCount :: uint32
  ctx_memory :: Memory
  userData :: "string \<Rightarrow> data option"

definition ctx_Push :: "executionContextImpl \<Rightarrow> Value \<Rightarrow> error option \<times> executionContextImpl" where
  "ctx_Push ctx v =
     (let maxDepth = vm_StackSize ctx
      in if maxDepth \<le> int (length (vm_stack ctx)) then (Some ErrStackOverflow, ctx)
         else (None, ctx\<lparr>vm_stack := vm_stack ctx @ [v]\<rparr>))"

definition ctx_Pop :: "executionContextImpl \<Rightarrow> (Value \<times> error option) \<times> executionContextImpl" where
  "ctx_Pop ctx =
     (if length (vm_stack ctx) = 0 then ((NilValue, Some ErrStackUnderflow), ctx)
      else ((vm_stack ctx ! (length (vm_stack ctx) - 1), None),
            ctx\<lparr>vm_stack := take (length (vm_stack ctx) - 1) (vm_stack ctx)\<rparr>))"

definition ctx_Peek :: "executionContextImpl \<Rightarrow> Value \<times> error option" where
  "ctx_Peek ctx =
     (if length (vm_stack ctx) = 0 then (NilValue, Some ErrStackUnderflow)
      else (vm_stack ctx ! (length (vm_stack ctx) - 1), None))"

definition ctx_PeekN :: "executionContextImpl \<Rightarrow> int \<Rightarrow> Value \<times> error option" where
  "ctx_PeekN ctx n =
     (if n < 0 \<or> int (length (vm_stack ctx)) \<le> n then (NilValue, Some ErrStackUnderflow)
      else (vm_stack ctx ! (length (vm_stack ctx) - 1 - nat n), None))"

definition ctx_StackDepth :: "executionContextImpl \<Rightarrow> int" where
  "ctx_StackDepth ctx = int (length (vm_stack ctx))"

definition ctx_PC :: "executionContextImpl \<Rightarrow> int64" where
  "ctx_PC ctx = vm_pc ctx"

definition ctx_SetPC :: "executionContextImpl \<Rightarrow> int64 \<Rightarrow> executionContextImpl" where
  "ctx_SetPC ctx p = ctx\<lparr>vm_pc := p\<rparr>"

definition ctx_Jump :: "executionContextImpl \<Rightarrow> int64 \<Rightarrow> executionContextImpl" where
  "ctx_Jump ctx offset = ctx\<lparr>vm_pc := offset\<rparr>"

definition ctx_InstructionCount :: "executionContextImpl \<Rightarrow> uint32" where
  "ctx_InstructionCount ctx = vm_instrCount ctx"

definition ctx_IncrementInstructionCount :: "executionContextImpl \<Rightarrow> executionContextImpl" where
  "ctx_IncrementInstructionCount ctx = ctx\<lparr>vm_instrCount := vm_instrCount ctx + 1\<rparr>"

definition ctx_Halt :: "executionContextImpl \<Rightarrow> executionContextImpl" where
  "ctx_Halt ctx = ctx\<lparr>vm_halted := True\<rparr>"

definition ctx_IsHalted :: "executionContextImpl \<Rightarrow> bool" where
  "ctx_IsHalted ctx = vm_halted ctx"

text \<open>
  An instruction handler is its \<open>Execute\<close> method, a function of the operand and of what
  the context gives access to, and its \<open>Name\<close>. The registry maps opcodes to handlers.
\<close>

record InstructionHandler =
  handler_Execute :: "int32 \<Rightarrow> executionContextImpl \<Rightarrow> error option \<times> executionContextImpl"
  handler_Name :: string

type_synonym instructionRegistry = "Opcode \<Rightarrow> InstructionHandler option"

definition NewInstructionRegistry :: instructionRegistry where
  "NewInstructionRegistry = (\<lambda>opcode. None)"

definition Register ::
  "instructionRegistry \<Rightarrow> Opcode \<Rightarrow> InstructionHandler \<Rightarrow> error option \<times> instructionRegistry" where
  "Register r opcode handler =
     (if opcode < 128 then (Some (HostError ''cannot register standard opcode''), r)
      else if r opcode \<noteq> None then (Some (HostError ''opcode already registered''), r)
      else (None, r(opcode \<mapsto> handler)))"

definition registry_Get :: "instructionRegistry \<Rightarrow> Opcode \<Rightarrow> InstructionHandler option" where
  "registry_Get r opcode = r opcode"

text \<open>\<open>Config\<close> (the value converter, which the executor never consults, is left out),
  \<open>ExecuteOptions\<close> and \<open>Result\<close>.

  The \<open>Context\<close> of the options is what the executor observes of it: at the loop iteration
  \<open>k\<close> (counted from 0), whether its \<open>Done\<close> channel is closed and, if so, the error
  \<open>ctx.Err()\<close>. \<open>None\<close> is the nil context. The \<open>Timeout\<close> is a duration; the clock of an
  execution gives the time elapsed since its start when iteration \<open>k\<close> reads it. The
  \<open>ExecutionTime\<close> of the result is wall-clock time and is left out.\<close>

record Config =
  StackSize :: int
  DefaultInstrLimit :: uint32
  InstructionRegistry :: "instructionRegistry option"

record ExecuteOptions =
  MaxInstructions :: uint32
  MaxStackDepth :: int
  Timeout :: int
  Context :: "(nat \<Rightarrow> error option) option"

record Result =
  InstructionCount :: uint32
  StackDepth :: int
  Halted :: bool
  Error :: "error option"

section \<open>Executor\<close>

record executor =
  config :: Config
  stack :: "Value list"
  pc :: int64
  halted :: bool
  instrCount :: uint32

definition newExecutor :: "Config \<Rightarrow> executor" where
  "newExecutor cfg =
     (let cfg = (if StackSize cfg \<le> 0 then cfg\<lparr>StackSize := 256\<rparr> else cfg)
      in \<lparr>config = cfg, stack = [], pc = 0, halted = False, instrCount = 0\<rparr>)"

definition NewWithConfig :: "Config \<Rightarrow> executor" where
  "NewWithConfig cfg = newExecutor cfg"

definition New :: executor where
  "New = NewWithConfig \<lparr>StackSize = 256, DefaultInstrLimit = 0, InstructionRegistry = None\<rparr>"

definition Reset :: "executor \<Rightarrow> executor" where
  "Reset e = e\<lparr>stack := [], pc := 0, halted := False, instrCount := 0\<rparr>"

text \<open>Stack operation helpers.\<close>

definition push :: "executor \<Rightarrow> Value \<Rightarrow> int \<Rightarrow> error option \<times> executor" where
  "push e val maxStackDepth =
     (if maxStackDepth \<le> int (length (stack e)) then (Some ErrStackOverflow, e)
      else (None, e\<lparr>stack := stack e @ [val]\<rparr>))"

definition pop :: "executor \<Rightarrow> (Value \<times> error option) \<times> executor" where
  "pop e =
     (if length (stack e) = 0 then ((NilValue, Some ErrStackUnderflow), e)
      else ((stack e ! (length (stack e) - 1), None),
            e\<lparr>stack := take (length (stack e) - 1) (stack e)\<rparr>))"

definition peek :: "executor \<Rightarrow> Value \<times> error option" where
  "peek e =
     (if length (stack e) = 0 then (NilValue, Some ErrStackUnderflow)
      else (stack e ! (length (stack e) - 1), None))"

text \<open>The context of an execution as a view of the executor, and the executor after a
  handler has run on that view.\<close>

definition view_of ::
  "executor \<Rightarrow> Memory \<Rightarrow> (string \<Rightarrow> data option) \<Rightarrow> executionContextImpl" where
  "view_of e memory ud =
     \<lparr>vm_StackSize = StackSize (config e), vm_stack = stack e, vm_pc = pc e,
      vm_halted = halted e, vm_instrCount = instrCount e, ctx_memory = memory,
      userData = ud\<rparr>"

definition absorb :: "executor \<Rightarrow> executionContextImpl \<Rightarrow> executor" where
  "absorb e ctx =
     e\<lparr>stack := vm_stack ctx, pc := vm_pc ctx, halted := vm_halted ctx,
       instrCount := vm_instrCount ctx\<rparr>"

text \<open>An instruction whose handler works on the stack alone.\<close>

definition on_stack ::
  "executor \<Rightarrow> Memory \<Rightarrow> (string \<Rightarrow> data option) \<Rightarrow> Value list \<times> error option \<Rightarrow>
   error option \<times> executor \<times> Memory \<times> (string \<Rightarrow> data option)" where
  "on_stack e memory ud r = (snd r, e\<lparr>stack := fst r\<rparr>, memory, ud)"

text \<open>A jump: the program counter is set to the target minus one, because the main loop
  increments it.\<close>

definition jump_to :: "executor \<Rightarrow> int32 \<Rightarrow> executor" where
  "jump_to e operand = e\<lparr>pc := scast operand - 1\<rparr>"

text \<open>
  \<open>executeInstruction\<close>: the switch on the opcode, in the order of the source. It returns
  the error (\<open>None\<close> is nil) and what the instruction has made of the executor, the memory
  and the user data of the context.
\<close>

definition executeInstruction ::
  "fpu \<Rightarrow> executor \<Rightarrow> Instruction \<Rightarrow> Memory \<Rightarrow> int \<Rightarrow> (string \<Rightarrow> data option) \<Rightarrow>
   error option \<times> executor \<times> Memory \<times> (string \<Rightarrow> data option)" where
  "executeInstruction u e inst memory maxStackDepth ud =
     (let opc = Opcode inst; operand = Operand inst in
      if opc = OpPUSH then
        (case push e (FloatValue (f64_of_int (sint operand))) maxStackDepth of
           (err, e') \<Rightarrow> (err, e', memory, ud))
      else if opc = OpPUSHI then
        (case push e (IntValue (scast operand)) maxStackDepth of
           (err, e') \<Rightarrow> (err, e', memory, ud))
      else if opc = OpPOP then
        (case pop e of ((val, err), e') \<Rightarrow> (err, e', memory, ud))
      else if opc = OpDUP then
        (case peek e of
           (val, Some err) \<Rightarrow> (Some err, e, memory, ud)
         | (val, None) \<Rightarrow>
             (case push e val maxStackDepth of (err, e') \<Rightarrow> (err, e', memory, ud)))
      else if opc = OpSWAP then
        (if length (stack e) < 2 then (Some ErrStackUnderflow, e, memory, ud)
         else
           (let top = length (stack e) - 1
            in (None,
                e\<lparr>stack := (stack e)[top := stack e ! (top - 1), top - 1 := stack e ! top]\<rparr>,
                memory, ud)))
      else if opc = OpOVER then
        (if length (stack e) < 2 then (Some ErrStackUnderflow, e, memory, ud)
         else
           (case push e (stack e ! (length (stack e) - 2)) maxStackDepth of
              (err, e') \<Rightarrow> (err, e', memory, ud)))
      else if opc = OpROT then
        (if length (stack e) < 3 then (Some ErrStackUnderflow, e, memory, ud)
         else
           (let top = length (stack e) - 1
            in (None,
                e\<lparr>stack := (stack e)[top - 2 := stack e ! (top - 1), top - 1 := stack e ! top,
                                       top := stack e ! (top - 2)]\<rparr>,
                memory, ud)))
      else if opc = OpADD then on_stack e memory ud (opAdd u (stack e))
      else if opc = OpSUB then on_stack e memory ud (opSub u (stack e))
      else if opc = OpMUL then on_stack e memory ud (opMul u (stack e))
      else if opc = OpDIV then on_stack e memory ud (opDiv u (stack e))
      else if opc = OpMOD then on_stack e memory ud (opMod u (stack e))
      else if opc = OpNEG then on_stack e memory ud (opNeg (stack e))
      else if opc = OpABS then on_stack e memory ud (opAbs (stack e))
      else if opc = OpINC then on_stack e memory ud (opInc u (stack e))
      else if opc = OpDEC then on_stack e memory ud (opDec u (stack e))
      else if opc = OpAND then on_stack e memory ud (opAnd (stack e))
      else if opc = OpOR then on_stack e memory ud (opOr (stack e))
      else if opc = OpNOT then on_stack e memory ud (opNot (stack e))
      else if opc = OpXOR then on_stack e memory ud (opXor (stack e))
      else if opc = OpEQ then on_stack e memory ud (opEq (stack e))
      else if opc = OpNE then on_stack e memory ud (opNe (stack e))
      else if opc = OpGT then on_stack e memory ud (opGt (stack e))
      else if opc = OpLT then on_stack e memory ud (opLt (stack e))
      else if opc = OpGE then on_stack e memory ud (opGe (stack e))
      else if opc = OpLE then on_stack e memory ud (opLe (stack e))
      else if opc = OpSQRT then on_stack e memory ud (opSqrt u (stack e))
      else if opc = OpSIN then on_stack e memory ud (opSin u (stack e))
      else if opc = OpCOS then on_stack e memory ud (opCos u (stack e))
      else if opc = OpTAN then on_stack e memory ud (opTan u (stack e))
      else if opc = OpASIN then on_stack e memory ud (opAsin u (stack e))
      else if opc = OpACOS then on_stack e memory ud (opAcos u (stack e))
      else if opc = OpATAN then on_stack e memory ud (opAtan u (stack e))
      else if opc = OpATAN2 then on_stack e memory ud (opAtan2 u (stack e))
      else if opc = OpLOG then on_stack e memory ud (opLog u (stack e))
      else if opc = OpLOG10 then on_stack e memory ud (opLog10 u (stack e))
      else if opc = OpEXP then on_stack e memory ud (opExp u (stack e))
      else if opc = OpPOW then on_stack e memory ud (opPow u (stack e))
      else if opc = OpMIN then on_stack e memory ud (opMin u (stack e))
      else if opc = OpMAX then on_stack e memory ud (opMax u (stack e))
      else if opc = OpFLOOR then on_stack e memory ud (opFloor u (stack e))
      else if opc = OpCEIL then on_stack e memory ud (opCeil u (stack e))
      else if opc = OpROUND then on_stack e memory ud (opRound u (stack e))
      else if opc = OpTRUNC then on_stack e memory ud (opTrunc u (stack e))
      else if opc = OpLOAD then
        (case Load memory (sint operand) of
           ((val, Some err), memory') \<Rightarrow> (Some err, e, memory', ud)
         | ((val, None), memory') \<Rightarrow>
             (case push e val maxStackDepth of (err, e') \<Rightarrow> (err, e', memory', ud)))
      else if opc = OpSTORE then
        (case pop e of
           ((val, Some err), e') \<Rightarrow> (Some err, e', memory, ud)
         | ((val, None), e') \<Rightarrow>
             (case Store memory (sint operand) val of
                (memory', err) \<Rightarrow> (err, e', memory', ud)))
      else if opc = OpLOADD then
        (case pop e of
           ((addr, Some err), e') \<Rightarrow> (Some err, e', memory, ud)
         | ((addr, None), e') \<Rightarrow>
             (case toInt64 u addr of
                (addrInt, Some err) \<Rightarrow> (Some err, e', memory, ud)
              | (addrInt, None) \<Rightarrow>
                  (case Load memory (sint addrInt) of
                     ((val, Some err), memory') \<Rightarrow> (Some err, e', memory', ud)
                   | ((val, None), memory') \<Rightarrow>
                       (case push e' val maxStackDepth of
                          (err, e'') \<Rightarrow> (err, e'', memory', ud)))))
      else if opc = OpSTORED then
        (case pop e of
           ((val, Some err), e') \<Rightarrow> (Some err, e', memory, ud)
         | ((val, None), e') \<Rightarrow>
             (case pop e' of
                ((addr, Some err), e'') \<Rightarrow> (Some err, e'', memory, ud)
              | ((addr, None), e'') \<Rightarrow>
                  (case toInt64 u addr of
                     (addrInt, Some err) \<Rightarrow> (Some err, e'', memory, ud)
                   | (addrInt, None) \<Rightarrow>
                       (case Store memory (sint addrInt) val of
                          (memory', err) \<Rightarrow> (err, e'', memory', ud)))))
      else if opc = OpJMP then (None, jump_to e operand, memory, ud)
      else if opc = OpJMPZ then
        (case pop e of
           ((val, Some err), e') \<Rightarrow> (Some err, e', memory, ud)
         | ((val, None), e') \<Rightarrow>
             (None, if \<not> toBool val then jump_to e' operand else e', memory, ud))
      else if opc = OpJMPNZ then
        (case pop e of
           ((val, Some err), e') \<Rightarrow> (Some err, e', memory, ud)
         | ((val, None), e') \<Rightarrow>
             (None, if toBool val then jump_to e' operand else e', memory, ud))
      else if opc = OpCALL then (None, jump_to e operand, memory, ud)
      else if opc = OpRET then (None, e\<lparr>halted := True\<rparr>, memory, ud)
      else if opc = OpHALT then (None, e\<lparr>halted := True\<rparr>, memory, ud)
      else if opc = OpNOP then (None, e, memory, ud)
      else
        (case (if 128 \<le> opc then
                 (case InstructionRegistry (config e) of
                    None \<Rightarrow> None
                  | Some registry \<Rightarrow> registry_Get registry opc)
               else None) of
           Some handler \<Rightarrow>
             (case handler_Execute handler operand (view_of e memory ud) of
                (err, ctx) \<Rightarrow> (err, absorb e ctx, ctx_memory ctx, userData ctx))
         | None \<Rightarrow> (Some ErrInvalidOpcode, e, memory, ud)))"

text \<open>
  The main loop of \<open>Execute\<close>. The arguments that stay the same are the instructions, the
  limits and the environment (the clock and the context); \<open>k\<close> counts the iterations.
  The loop may run forever: the function is partial, and \<open>None\<close> is an execution that
  does not return. A result is the \<open>Result\<close> record, the returned error, and the executor
  and the memory as the execution leaves them.
\<close>

partial_function (option) exec_loop ::
  "fpu \<Rightarrow> (nat \<Rightarrow> int) \<Rightarrow> Instruction list \<Rightarrow> uint32 \<Rightarrow> int \<Rightarrow> ExecuteOptions \<Rightarrow>
   nat \<Rightarrow> executor \<Rightarrow> Memory \<Rightarrow> (string \<Rightarrow> data option) \<Rightarrow>
   (Result \<times> error option \<times> executor \<times> Memory) option" where
  "exec_loop u clock instrs maxInstructions maxStackDepth opts k e memory ud =
     (if \<not> halted e \<and> 0 \<le> sint (pc e) \<and> sint (pc e) < int (length instrs) then
        (if 0 < maxInstructions \<and> maxInstructions \<le> instrCount e then
           Some (\<lparr>InstructionCount = instrCount e, StackDepth = int (length (stack e)),
                   Halted = False, Error = Some ErrInstructionLimit\<rparr>,
                 Some ErrInstructionLimit, e, memory)
         else if 0 < Timeout opts \<and> Timeout opts < clock k then
           Some (\<lparr>InstructionCount = instrCount e, StackDepth = int (length (stack e)),
                   Halted = False, Error = Some ErrTimeout\<rparr>,
                 Some ErrTimeout, e, memory)
         else
           (case (case Context opts of None \<Rightarrow> None | Some ctx \<Rightarrow> ctx k) of
              Some err \<Rightarrow>
                Some (\<lparr>InstructionCount = instrCount e, StackDepth = int (length (stack e)),
                        Halted = False, Error = Some err\<rparr>,
                      Some err, e, memory)
            | None \<Rightarrow>
                (case executeInstruction u (e\<lparr>instrCount := instrCount e + 1\<rparr>)
                        (instrs ! nat (sint (pc e))) memory maxStackDepth ud of
                   (Some err, e', memory', ud') \<Rightarrow>
                     Some (\<lparr>InstructionCount = instrCount e',
                             StackDepth = int (length (stack e')),
                             Halted = halted e', Error = Some err\<rparr>,
                           Some err, e', memory')
                 | (None, e', memory', ud') \<Rightarrow>
                     exec_loop u clock instrs maxInstructions maxStackDepth opts (k + 1)
                       (if \<not> halted e' then e'\<lparr>pc := pc e' + 1\<rparr> else e') memory' ud')))
      else
        (let e' = (if \<not> halted e \<and> int (length instrs) \<le> sint (pc e)
                   then e\<lparr>halted := True\<rparr> else e)
         in Some (\<lparr>InstructionCount = instrCount e', StackDepth = int (length (stack e')),
                    Halted = halted e', Error = None\<rparr>,
                  None, e', memory)))"

text \<open>\<open>Execute\<close>: reset the state, apply the options, run the loop with a fresh context
  (empty user data).\<close>

definition Execute ::
  "fpu \<Rightarrow> (nat \<Rightarrow> int) \<Rightarrow> executor \<Rightarrow> Program \<Rightarrow> Memory \<Rightarrow> ExecuteOptions \<Rightarrow>
   (Result \<times> error option \<times> executor \<times> Memory) option" where
  "Execute u clock e program memory opts =
     (let e = e\<lparr>stack := [], pc := 0, halted := False, instrCount := 0\<rparr>;
          maxInstructions =
            (if MaxInstructions opts = 0 \<and> 0 < DefaultInstrLimit (config e)
             then DefaultInstrLimit (config e) else MaxInstructions opts);
          maxStackDepth =
            (if MaxStackDepth opts \<le> 0 then StackSize (config e) else MaxStackDepth opts)
      in exec_loop u clock (instructions program) maxInstructions maxStackDepth opts 0
           e memory (\<lambda>key. None))"

section \<open>Program builder\<close>

text \<open>
  The builder holds the instructions emitted so far, the labels (a Go map from the name to
  the index of an instruction; here the list of its bindings, one for each name), the
  references to labels that are still to be resolved, and the metadata.
\<close>

record labelRef =
  labelName :: string
  instIndex :: nat

record ProgramBuilder =
  b_instructions :: "Instruction list"
  b_labels :: "(string \<times> nat) list"
  b_references :: "labelRef list"
  b_metadata :: ProgramMetadata

definition NewProgramBuilder :: ProgramBuilder where
  "NewProgramBuilder =
     \<lparr>b_instructions = [], b_labels = [], b_references = [], b_metadata = zero_metadata\<rparr>"

text \<open>\<open>m[k] = v\<close> on a map kept as the list of its bindings: the binding of \<open>k\<close> is
  replaced, or a new one is added.\<close>

fun map_assign :: "('k \<times> 'v) list \<Rightarrow> 'k \<Rightarrow> 'v \<Rightarrow> ('k \<times> 'v) list" where
  "map_assign [] k v = [(k, v)]"
| "map_assign ((k', v') # m) k v =
     (if k' = k then (k, v) # m else (k', v') # map_assign m k v)"

text \<open>\<open>append(b.instructions, NewInstruction(opcode, operand))\<close>, the body of every
  method of the builder that emits an instruction.\<close>

definition emit :: "ProgramBuilder \<Rightarrow> Opcode \<Rightarrow> int32 \<Rightarrow> ProgramBuilder" where
  "emit b opcode operand =
     b\<lparr>b_instructions := b_instructions b @ [NewInstruction opcode operand]\<rparr>"

text \<open>\<open>Push\<close> narrows its float to \<open>int32\<close>; \<open>PushInt\<close>, \<open>Load\<close> and \<open>Store\<close> keep the low
  32 bits of their integer.\<close>

definition Push :: "fpu \<Rightarrow> ProgramBuilder \<Rightarrow> float64 \<Rightarrow> ProgramBuilder" where
  "Push u b v = emit b OpPUSH (f64_to_int32 u v)"

definition PushInt :: "ProgramBuilder \<Rightarrow> int64 \<Rightarrow> ProgramBuilder" where
  "PushInt b v = emit b OpPUSHI (ucast v)"

definition builder_Load :: "ProgramBuilder \<Rightarrow> int64 \<Rightarrow> ProgramBuilder" where
  "builder_Load b index = emit b OpLOAD (ucast index)"

definition builder_Store :: "ProgramBuilder \<Rightarrow> int64 \<Rightarrow> ProgramBuilder" where
  "builder_Store b index = emit b OpSTORE (ucast index)"

definition builder_Pop :: "ProgramBuilder \<Rightarrow> ProgramBuilder" where
  "builder_Pop b = emit b OpPOP 0"

definition builder_Dup :: "ProgramBuilder \<Rightarrow> ProgramBuilder" where
  "builder_Dup b = emit b OpDUP 0"

definition builder_Swap :: "ProgramBuilder \<Rightarrow> ProgramBuilder" where
  "builder_Swap b = emit b OpSWAP 0"

definition builder_Over :: "ProgramBuilder \<Rightarrow> ProgramBuilder" where
  "builder_Over b = emit b OpOVER 0"

definition builder_Rot :: "ProgramBuilder \<Rightarrow> ProgramBuilder" where
  "builder_Rot b = emit b OpROT 0"

definition builder_Add :: "ProgramBuilder \<Rightarrow> ProgramBuilder" where
  "builder_Add b = emit b OpADD 0"

definition builder_Sub :: "ProgramBuilder \<Rightarrow> ProgramBuilder" where
  "builder_Sub b = emit b OpSUB 0"

definition builder_Mul :: "ProgramBuilder \<Rightarrow> ProgramBuilder" where
  "builder_Mul b = emit b OpMUL 0"

definition builder_Div :: "ProgramBuilder \<Rightarrow> ProgramBuilder" where
  "builder_Div b = emit b OpDIV 0"

definition builder_Mod :: "ProgramBuilder \<Rightarrow> ProgramBuilder" where
  "builder_Mod b = emit b OpMOD 0"

definition builder_Neg :: "ProgramBuilder \<Rightarrow> ProgramBuilder" where
  "builder_Neg b = emit b OpNEG 0"

definition builder_Abs :: "ProgramBuilder \<Rightarrow> ProgramBuilder" where
  "builder_Abs b = emit b OpABS 0"

definition builder_Inc :: "ProgramBuilder \<Rightarrow> ProgramBuilder" where
  "builder_Inc b = emit b OpINC 0"

definition builder_Dec :: "ProgramBuilder \<Rightarrow> ProgramBuilder" where
  "builder_Dec b = emit b OpDEC 0"

definition builder_And :: "ProgramBuilder \<Rightarrow> ProgramBuilder" where
  "builder_And b = emit b OpAND 0"

definition builder_Or :: "ProgramBuilder \<Rightarrow> ProgramBuilder" where
  "builder_Or b = emit b OpOR 0"

definition builder_Not :: "ProgramBuilder \<Rightarrow> ProgramBuilder" where
  "builder_Not b = emit b OpNOT 0"

definition builder_Xor :: "ProgramBuilder \<Rightarrow> ProgramBuilder" where
  "builder_Xor b = emit b OpXOR 0"

definition builder_Eq :: "ProgramBuilder \<Rightarrow> ProgramBuilder" where
  "builder_Eq b = emit b OpEQ 0"

definition builder_Ne :: "ProgramBuilder \<Rightarrow> ProgramBuilder" where
  "builder_Ne b = emit b OpNE 0"

definition builder_Gt :: "ProgramBuilder \<Rightarrow> ProgramBuilder" where
  "builder_Gt b = emit b OpGT 0"

definition builder_Lt :: "ProgramBuilder \<Rightarrow> ProgramBuilder" where
  "builder_Lt b = emit b OpLT 0"

definition builder_Ge :: "ProgramBuilder \<Rightarrow> ProgramBuilder" where
  "builder_Ge b = emit b OpGE 0"

definition builder_Le :: "ProgramBuilder \<Rightarrow> ProgramBuilder" where
  "builder_Le b = emit b OpLE 0"

definition builder_LoadD :: "ProgramBuilder \<Rightarrow> ProgramBuilder" where
  "builder_LoadD b = emit b OpLOADD 0"

definition builder_StoreD :: "ProgramBuilder \<Rightarrow> ProgramBuilder" where
  "builder_StoreD b = emit b OpSTORED 0"

definition builder_Ret :: "ProgramBuilder \<Rightarrow> ProgramBuilder" where
  "builder_Ret b = emit b OpRET 0"

definition builder_Halt :: "ProgramBuilder \<Rightarrow> ProgramBuilder" where
  "builder_Halt b = emit b OpHALT 0"

definition builder_Nop :: "ProgramBuilder \<Rightarrow> ProgramBuilder" where
  "builder_Nop b = emit b OpNOP 0"

definition builder_Sqrt :: "ProgramBuilder \<Rightarrow> ProgramBuilder" where
  "builder_Sqrt b = emit b OpSQRT 0"

definition builder_Sin :: "ProgramBuilder \<Rightarrow> ProgramBuilder" where
  "builder_Sin b = emit b OpSIN 0"

definition builder_Cos :: "ProgramBuilder \<Rightarrow> ProgramBuilder" where
  "builder_Cos b = emit b OpCOS 0"

definition builder_Tan :: "ProgramBuilder \<Rightarrow> ProgramBuilder" where
  "builder_Tan b = emit b OpTAN 0"

definition builder_Min :: "ProgramBuilder \<Rightarrow> ProgramBuilder" where
  "builder_Min b = emit b OpMIN 0"

definition builder_Max :: "ProgramBuilder \<Rightarrow> ProgramBuilder" where
  "builder_Max b = emit b OpMAX 0"

definition builder_Floor :: "ProgramBuilder \<Rightarrow> ProgramBuilder" where
  "builder_Floor b = emit b OpFLOOR 0"

definition builder_Ceil :: "ProgramBuilder \<Rightarrow> ProgramBuilder" where
  "builder_Ceil b = emit b OpCEIL 0"

definition builder_Round :: "ProgramBuilder \<Rightarrow> ProgramBuilder" where
  "builder_Round b = emit b OpROUND 0"

text \<open>\<open>Label\<close> binds the name to the index of the next instruction; a name that is bound
  already is bound anew.\<close>

definition builder_Label :: "ProgramBuilder \<Rightarrow> string \<Rightarrow> ProgramBuilder" where
  "builder_Label b name = b\<lparr>b_labels := map_assign (b_labels b) name (length (b_instructions b))\<rparr>"

text \<open>The shape shared by \<open>Jmp\<close>, \<open>JmpZ\<close>, \<open>JmpNZ\<close> and \<open>Call\<close>: emit the instruction with
  the operand 0 and record the reference.\<close>

definition emit_ref :: "ProgramBuilder \<Rightarrow> Opcode \<Rightarrow> string \<Rightarrow> ProgramBuilder" where
  "emit_ref b opcode label =
     (let instIndex = length (b_instructions b);
          b = emit b opcode 0
      in b\<lparr>b_references := b_references b @ [\<lparr>labelName = label, instIndex = instIndex\<rparr>]\<rparr>)"

definition builder_Jmp :: "ProgramBuilder \<Rightarrow> string \<Rightarrow> ProgramBuilder" where
  "builder_Jmp b label = emit_ref b OpJMP label"

definition builder_JmpZ :: "ProgramBuilder \<Rightarrow> string \<Rightarrow> ProgramBuilder" where
  "builder_JmpZ b label = emit_ref b OpJMPZ label"

definition builder_JmpNZ :: "ProgramBuilder \<Rightarrow> string \<Rightarrow> ProgramBuilder" where
  "builder_JmpNZ b label = emit_ref b OpJMPNZ label"

definition builder_Call :: "ProgramBuilder \<Rightarrow> string \<Rightarrow> ProgramBuilder" where
  "builder_Call b label = emit_ref b OpCALL label"

definition builder_Custom :: "ProgramBuilder \<Rightarrow> Opcode \<Rightarrow> int32 \<Rightarrow> ProgramBuilder" where
  "builder_Custom b opcode operand = emit b opcode operand"

text \<open>\<open>Build\<close>: each reference, in order, gets the address of its label as the operand of
  its instruction; a name without a binding is an error. The symbol table is filled by
  ranging over the labels (Go leaves the order open; it matters only when two labels
  have the same address, and is the order of the bindings here).\<close>

fun resolve :: "(string \<times> nat) list \<Rightarrow> labelRef list \<Rightarrow> Instruction list \<Rightarrow> error + Instruction list" where
  "resolve labels [] instrs = Inr instrs"
| "resolve labels (ref # refs) instrs =
     (case map_of labels (labelName ref) of
        None \<Rightarrow> Inl (ErrorfW (UnresolvedLabelName (labelName ref)) ErrUnresolvedLabel)
      | Some targetAddr \<Rightarrow>
          resolve labels refs
            (instrs[instIndex ref := (instrs ! instIndex ref)\<lparr>Operand := word_of_nat targetAddr\<rparr>]))"

definition Build :: "ProgramBuilder \<Rightarrow> error + Program" where
  "Build b =
     (case resolve (b_labels b) (b_references b) (b_instructions b) of
        Inl err \<Rightarrow> Inl err
      | Inr instrs \<Rightarrow>
          (let symbols = foldl (\<lambda>m (name, addr). map_assign m (int addr) name) [] (b_labels b)
           in Inr ((NewProgramWithMetadata instrs (b_metadata b))\<lparr>symbols := Some symbols\<rparr>)))"

section \<open>Lexer (package asm)\<close>

text \<open>
  The source is a string of bytes. \<open>unicode.IsDigit\<close> and \<open>unicode.IsLetter\<close> are applied
  to single bytes, read as the code points 0 to 255: the digits are \<open>0\<close> to \<open>9\<close>, and the
  letters are the ASCII letters and the letters of Latin-1.
\<close>

definition IsDigit :: "char \<Rightarrow> bool" where
  "IsDigit ch = (48 \<le> (of_char ch :: nat) \<and> (of_char ch :: nat) \<le> 57)"

definition IsLetter :: "char \<Rightarrow> bool" where
  "IsLetter ch =
     (let c = (of_char ch :: nat)
      in (65 \<le> c \<and> c \<le> 90) \<or> (97 \<le> c \<and> c \<le> 122) \<or> c = 170 \<or> c = 181 \<or> c = 186 \<or>
         (192 \<le> c \<and> c \<le> 214) \<or> (216 \<le> c \<and> c \<le> 246) \<or> (248 \<le> c \<and> c \<le> 255))"

datatype TokenType = TokenEOF | TokenNewline | TokenIdent | TokenLabel | TokenNumber | TokenComment

record Token =
  tok_Type :: TokenType
  tok_Value :: string
  tok_Line :: int
  tok_Column :: int

text \<open>The lexer's position in the source is the part of the source that is still unread
  (\<open>source[pos:]\<close>).\<close>

record Lexer =
  lex_rest :: string
  lex_line :: int
  lex_column :: int
  lex_tokens :: "Token list"

definition NewLexer :: "string \<Rightarrow> Lexer" where
  "NewLexer src = \<lparr>lex_rest = src, lex_line = 1, lex_column = 1, lex_tokens = []\<rparr>"

definition emitTokenAt :: "Lexer \<Rightarrow> TokenType \<Rightarrow> string \<Rightarrow> int \<Rightarrow> int \<Rightarrow> Lexer" where
  "emitTokenAt l typ val ln col =
     l\<lparr>lex_tokens := lex_tokens l @
          [\<lparr>tok_Type = typ, tok_Value = val, tok_Line = ln, tok_Column = col\<rparr>]\<rparr>"

definition emitToken :: "Lexer \<Rightarrow> TokenType \<Rightarrow> string \<Rightarrow> Lexer" where
  "emitToken l typ val = emitTokenAt l typ val (lex_line l) (lex_column l)"

text \<open>\<open>advance\<close>, repeated \<open>n\<close> times, where at least \<open>n\<close> bytes are unread.\<close>

definition advance_by :: "Lexer \<Rightarrow> nat \<Rightarrow> Lexer" where
  "advance_by l n = l\<lparr>lex_rest := drop n (lex_rest l), lex_column := lex_column l + int n\<rparr>"

text \<open>\<open>strconv.ParseInt(s, 10, 64)\<close>: an optional sign and decimal digits, with a value
  that fits \<open>int64\<close>. \<open>strconv.ParseFloat\<close> is a parameter of the lexer and the parser.\<close>

definition digit_value :: "char \<Rightarrow> nat" where
  "digit_value ch = of_char ch - 48"

definition decimal_value :: "string \<Rightarrow> nat" where
  "decimal_value ds = foldl (\<lambda>a ch. 10 * a + digit_value ch) 0 ds"

definition ParseInt :: "string \<Rightarrow> int option" where
  "ParseInt s =
     (let neg = (s \<noteq> [] \<and> hd s = CHR ''-'');
          ds = (if s \<noteq> [] \<and> (hd s = CHR ''+'' \<or> hd s = CHR ''-'') then tl s else s)
      in if ds = [] \<or> \<not> list_all IsDigit ds then None
         else if \<not> neg \<and> 2 ^ 63 \<le> decimal_value ds then None
         else if neg \<and> 2 ^ 63 < decimal_value ds then None
         else Some (if neg then - int (decimal_value ds) else int (decimal_value ds)))"

definition scanComment :: "Lexer \<Rightarrow> Lexer" where
  "scanComment l = advance_by l (length (takeWhile (\<lambda>ch. ch \<noteq> CHR 0x0A) (lex_rest l)))"

definition scanNumber :: "(string \<Rightarrow> float64 option) \<Rightarrow> Lexer \<Rightarrow> error option \<times> Lexer" where
  "scanNumber pf l =
     (let startCol = lex_column l;
          sign = (if lex_rest l \<noteq> [] \<and> hd (lex_rest l) = CHR ''-'' then [CHR ''-''] else []);
          digits = takeWhile (\<lambda>ch. IsDigit ch \<or> ch = CHR ''.'') (drop (length sign) (lex_rest l));
          val = sign @ digits;
          l = advance_by l (length val)
      in if CHR ''.'' \<in> set val then
           (case pf val of
              None \<Rightarrow> (Some (Errorf (InvalidFloat val (lex_line l) startCol)), l)
            | Some f \<Rightarrow> (None, emitTokenAt l TokenNumber val (lex_line l) startCol))
         else
           (case ParseInt val of
              None \<Rightarrow> (Some (Errorf (InvalidInteger val (lex_line l) startCol)), l)
            | Some i \<Rightarrow> (None, emitTokenAt l TokenNumber val (lex_line l) startCol)))"

definition scanIdentOrLabel :: "Lexer \<Rightarrow> error option \<times> Lexer" where
  "scanIdentOrLabel l =
     (let startCol = lex_column l;
          val = takeWhile (\<lambda>ch. IsLetter ch \<or> IsDigit ch \<or> ch = CHR ''_'') (lex_rest l);
          l = advance_by l (length val)
      in if lex_rest l \<noteq> [] \<and> hd (lex_rest l) = CHR '':'' then
           (None, emitTokenAt (advance_by l 1) TokenLabel val (lex_line l) startCol)
         else (None, emitTokenAt l TokenIdent val (lex_line l) startCol))"

text \<open>\<open>scanToken\<close>, called where the source is not exhausted.\<close>

definition scanToken :: "(string \<Rightarrow> float64 option) \<Rightarrow> Lexer \<Rightarrow> error option \<times> Lexer" where
  "scanToken pf l =
     (let ch = hd (lex_rest l) in
      if ch = CHR '' '' \<or> ch = CHR 0x09 \<or> ch = CHR 0x0D then (None, advance_by l 1)
      else if ch = CHR 0x0A then
        (let l = advance_by (emitToken l TokenNewline [CHR 0x0A]) 1
         in (None, l\<lparr>lex_line := lex_line l + 1, lex_column := 1\<rparr>))
      else if ch = CHR '';'' \<or> ch = CHR ''#'' then (None, scanComment l)
      else if IsDigit ch \<or>
              (ch = CHR ''-'' \<and> 1 < length (lex_rest l) \<and> IsDigit (lex_rest l ! 1))
        then scanNumber pf l
      else if IsLetter ch \<or> ch = CHR ''_'' then scanIdentOrLabel l
      else (Some (Errorf (UnexpectedCharacter ch (lex_line l) (lex_column l))), l))"

text \<open>The loop of \<open>Tokenize\<close>. It terminates: a token that is scanned without an error
  takes at least one byte.\<close>

function Tokenize_loop :: "(string \<Rightarrow> float64 option) \<Rightarrow> Lexer \<Rightarrow> error + Token list" where
  "Tokenize_loop pf l =
     (if lex_rest l = [] then
        Inr (lex_tokens l @
             [\<lparr>tok_Type = TokenEOF, tok_Value = [], tok_Line = lex_line l,
               tok_Column = lex_column l\<rparr>])
      else
        (case scanToken pf l of
           (Some err, l') \<Rightarrow> Inl err
         | (None, l') \<Rightarrow> Tokenize_loop pf l'))"
  by pat_completeness auto
termination
proof (relation "measure (\<lambda>(pf, l). length (lex_rest l))")
  show "wf (measure (\<lambda>(pf, l). length (lex_rest l)))" by simp
next
  fix pf :: "string \<Rightarrow> float64 option" and l l' :: Lexer and err :: "error option"
  assume ne: "lex_rest l \<noteq> []" and step: "(err, l') = scanToken pf l" and ok: "err = None"
  from ne obtain ch cs where rest: "lex_rest l = ch # cs" by (cases "lex_rest l") auto
  have adv: "length (lex_rest (advance_by l n)) < length (lex_rest l)" if "0 < n" for n
    using that rest by (simp add: advance_by_def)
  have num: "length (lex_rest (snd (scanNumber pf l))) < length (lex_rest l)"
    if "IsDigit ch \<or> ch = CHR ''-''"
  proof -
    define sign where "sign = (if lex_rest l \<noteq> [] \<and> hd (lex_rest l) = CHR ''-'' then ''-'' else [])"
    define digits where
      "digits = takeWhile (\<lambda>ch. IsDigit ch \<or> ch = CHR ''.'') (drop (length sign) (lex_rest l))"
    have "lex_rest (snd (scanNumber pf l)) = lex_rest (advance_by l (length (sign @ digits)))"
      unfolding scanNumber_def Let_def sign_def [symmetric] digits_def [symmetric]
      by (simp add: emitTokenAt_def split: option.split)
    moreover have "0 < length (sign @ digits)"
      using that rest by (auto simp: sign_def digits_def)
    ultimately show ?thesis using adv by simp
  qed
  have idn: "scanIdentOrLabel l = (None, l') \<Longrightarrow> IsLetter ch \<or> ch = CHR ''_'' \<Longrightarrow>
      length (lex_rest l') < length (lex_rest l)"
    using rest
    by (auto simp: scanIdentOrLabel_def Let_def advance_by_def emitTokenAt_def split: if_splits)
  have cmt: "ch \<noteq> CHR 0x0A \<Longrightarrow> length (lex_rest (scanComment l)) < length (lex_rest l)"
    using rest by (simp add: scanComment_def advance_by_def)
  have "length (lex_rest l') < length (lex_rest l)"
  proof (cases "ch = CHR '' '' \<or> ch = CHR 0x09 \<or> ch = CHR 0x0D")
    case True
    with step ok rest have "l' = advance_by l 1" by (simp add: scanToken_def)
    with adv [of 1] show ?thesis by simp
  next
    case ws: False
    show ?thesis
    proof (cases "ch = CHR 0x0A")
      case True
      with step ok rest ws have "lex_rest l' = lex_rest (advance_by l 1)"
        by (simp add: scanToken_def Let_def advance_by_def emitToken_def emitTokenAt_def)
      with adv [of 1] show ?thesis by simp
    next
      case nl: False
      show ?thesis
      proof (cases "ch = CHR '';'' \<or> ch = CHR ''#''")
        case True
        with step ok rest ws nl have "l' = scanComment l" by (auto simp: scanToken_def)
        with cmt nl show ?thesis by simp
      next
        case nc: False
        show ?thesis
        proof (cases "IsDigit ch \<or>
              (ch = CHR ''-'' \<and> 1 < length (lex_rest l) \<and> IsDigit (lex_rest l ! 1))")
          case True
          with step ok rest ws nl nc have "scanNumber pf l = (None, l')"
            by (simp add: scanToken_def)
          with num True show ?thesis by auto
        next
          case nn: False
          from step [symmetric] ok rest ws nl nc nn
          have "scanIdentOrLabel l = (None, l')" and "IsLetter ch \<or> ch = CHR ''_''"
            by (auto simp: scanToken_def split: if_splits)
          with idn show ?thesis by blast
        qed
      qed
    qed
  qed
  then show "((pf, l'), pf, l) \<in> measure (\<lambda>(pf, l). length (lex_rest l))" by simp
qed

declare Tokenize_loop.simps [simp del]

definition Tokenize :: "(string \<Rightarrow> float64 option) \<Rightarrow> string \<Rightarrow> error + Token list" where
  "Tokenize pf src = Tokenize_loop pf (NewLexer src)"

section \<open>Parser (package asm)\<close>

datatype StatementType = StmtLabel | StmtInstruction

datatype OperandType = OperandNumber | OperandLabel

record asm_Operand =
  opnd_Type :: OperandType
  opnd_Number :: int64
  opnd_FloatValue :: float64
  opnd_IsFloat :: bool
  opnd_Label :: string

record Statement =
  stmt_Type :: StatementType
  stmt_Label :: string
  stmt_Opcode :: string
  stmt_Operand :: "asm_Operand option"
  stmt_Line :: int
  stmt_Column :: int

text \<open>The number of a token type, as error messages show it.\<close>

fun token_code :: "TokenType \<Rightarrow> nat" where
  "token_code TokenEOF = 0"
| "token_code TokenNewline = 1"
| "token_code TokenIdent = 2"
| "token_code TokenLabel = 3"
| "token_code TokenNumber = 4"
| "token_code TokenComment = 5"

text \<open>The parser's position is the list of the tokens that are still unread
  (\<open>tokens[current:]\<close>); \<open>advance\<close>, which the parser calls only where a token is left,
  is the tail.\<close>

definition p_peek :: "Token list \<Rightarrow> Token" where
  "p_peek ts =
     (case ts of
        [] \<Rightarrow> \<lparr>tok_Type = TokenEOF, tok_Value = [], tok_Line = 0, tok_Column = 0\<rparr>
      | t # rest \<Rightarrow> t)"

definition isAtEnd :: "Token list \<Rightarrow> bool" where
  "isAtEnd ts = (case ts of [] \<Rightarrow> True | t # rest \<Rightarrow> tok_Type t = TokenEOF)"

definition skipNewlines :: "Token list \<Rightarrow> Token list" where
  "skipNewlines ts = dropWhile (\<lambda>t. tok_Type t = TokenNewline) ts"

definition parseOperand ::
  "(string \<Rightarrow> float64 option) \<Rightarrow> Token list \<Rightarrow> error + (asm_Operand \<times> Token list)" where
  "parseOperand pf ts =
     (let token = p_peek ts in
      case tok_Type token of
        TokenNumber \<Rightarrow>
          (case ParseInt (tok_Value token) of
             Some intVal \<Rightarrow>
               Inr (\<lparr>opnd_Type = OperandNumber, opnd_Number = word_of_int intVal,
                      opnd_FloatValue = Float64frombits 0, opnd_IsFloat = False,
                      opnd_Label = []\<rparr>, tl ts)
           | None \<Rightarrow>
               (case pf (tok_Value token) of
                  None \<Rightarrow>
                    Inl (Errorf (InvalidNumber (tok_Value token) (tok_Line token)
                                   (tok_Column token)))
                | Some floatVal \<Rightarrow>
                    Inr (\<lparr>opnd_Type = OperandNumber, opnd_Number = 0,
                           opnd_FloatValue = floatVal, opnd_IsFloat = True,
                           opnd_Label = []\<rparr>, tl ts)))
      | TokenIdent \<Rightarrow>
          Inr (\<lparr>opnd_Type = OperandLabel, opnd_Number = 0, opnd_FloatValue = Float64frombits 0,
                 opnd_IsFloat = False, opnd_Label = tok_Value token\<rparr>, tl ts)
      | _ \<Rightarrow>
          Inl (Errorf (ExpectedOperand (tok_Line token) (tok_Column token)
                         (token_code (tok_Type token)))))"

definition parseLabelDef :: "Token list \<Rightarrow> error + (Statement option \<times> Token list)" where
  "parseLabelDef ts =
     (if tok_Type (p_peek ts) \<noteq> TokenLabel then Inl (Errorf ExpectedLabel)
      else
        (let token = p_peek ts;
             ts = tl ts;
             stmt = \<lparr>stmt_Type = StmtLabel, stmt_Label = tok_Value token, stmt_Opcode = [],
                     stmt_Operand = None, stmt_Line = tok_Line token,
                     stmt_Column = tok_Column token\<rparr>;
             ts = (if tok_Type (p_peek ts) = TokenNewline then tl ts else ts)
         in Inr (Some stmt, ts)))"

definition parseInstruction ::
  "(string \<Rightarrow> float64 option) \<Rightarrow> Token list \<Rightarrow> error + (Statement option \<times> Token list)" where
  "parseInstruction pf ts =
     (if tok_Type (p_peek ts) \<noteq> TokenIdent then Inl (Errorf ExpectedInstruction)
      else
        (let token = p_peek ts;
             ts = tl ts;
             stmt = \<lparr>stmt_Type = StmtInstruction, stmt_Label = [], stmt_Opcode = tok_Value token,
                     stmt_Operand = None, stmt_Line = tok_Line token,
                     stmt_Column = tok_Column token\<rparr>
         in case (if \<not> isAtEnd ts \<and> tok_Type (p_peek ts) \<noteq> TokenNewline \<and>
                     tok_Type (p_peek ts) \<noteq> TokenEOF
                  then (case parseOperand pf ts of
                          Inl err \<Rightarrow> Inl err
                        | Inr (operand, ts') \<Rightarrow> Inr (stmt\<lparr>stmt_Operand := Some operand\<rparr>, ts'))
                  else Inr (stmt, ts)) of
              Inl err \<Rightarrow> Inl err
            | Inr (stmt, ts) \<Rightarrow>
                Inr (Some stmt, if tok_Type (p_peek ts) = TokenNewline then tl ts else ts)))"

definition parseStatement ::
  "(string \<Rightarrow> float64 option) \<Rightarrow> Token list \<Rightarrow> error + (Statement option \<times> Token list)" where
  "parseStatement pf ts =
     (let token = p_peek ts in
      case tok_Type token of
        TokenLabel \<Rightarrow> parseLabelDef ts
      | TokenIdent \<Rightarrow> parseInstruction pf ts
      | TokenNewline \<Rightarrow> Inr (None, tl ts)
      | TokenEOF \<Rightarrow> Inr (None, ts)
      | _ \<Rightarrow>
          Inl (Errorf (UnexpectedToken (token_code (tok_Type token)) (tok_Line token)
                         (tok_Column token))))"

text \<open>The loop of \<open>Parse\<close>. It terminates: where the parser is not at the end, a statement
  takes at least one token.\<close>

function Parse_loop ::
  "(string \<Rightarrow> float64 option) \<Rightarrow> Token list \<Rightarrow> Statement list \<Rightarrow> error + Statement list" where
  "Parse_loop pf ts statements =
     (if isAtEnd ts then Inr statements
      else
        (case parseStatement pf ts of
           Inl err \<Rightarrow> Inl err
         | Inr (stmt, ts') \<Rightarrow>
             Parse_loop pf (skipNewlines ts')
               (case stmt of None \<Rightarrow> statements | Some st \<Rightarrow> statements @ [st])))"
  by pat_completeness auto
termination
proof (relation "measure (\<lambda>(pf, ts, statements). length ts)")
  show "wf (measure (\<lambda>(pf, ts, statements). length ts))" by simp
next
  fix pf :: "string \<Rightarrow> float64 option" and ts ts' :: "Token list"
    and statements :: "Statement list" and r :: "Statement option \<times> Token list"
    and stmt :: "Statement option"
  assume ne: "\<not> isAtEnd ts" and step: "parseStatement pf ts = Inr r" and r: "(stmt, ts') = r"
  from ne obtain t rest where ts: "ts = t # rest" and t: "tok_Type t \<noteq> TokenEOF"
    by (cases ts) (auto simp: isAtEnd_def)
  have "length ts' \<le> length rest"
    using step r [symmetric] ts t
    by (cases "tok_Type t")
      (auto simp: parseStatement_def parseLabelDef_def parseInstruction_def parseOperand_def
        p_peek_def isAtEnd_def Let_def
        split: if_splits sum.splits prod.splits list.splits TokenType.splits option.splits)
  moreover have "length (skipNewlines ts') \<le> length ts'"
    by (simp add: skipNewlines_def length_dropWhile_le)
  ultimately show "((pf, skipNewlines ts', case stmt of None \<Rightarrow> statements
        | Some st \<Rightarrow> statements @ [st]), pf, ts, statements)
      \<in> measure (\<lambda>(pf, ts, statements). length ts)"
    using ts by simp
qed

declare Parse_loop.simps [simp del]

definition Parse :: "(string \<Rightarrow> float64 option) \<Rightarrow> Token list \<Rightarrow> error + Statement list" where
  "Parse pf tokens = Parse_loop pf (skipNewlines tokens) []"

section \<open>Assembler (assembler.go)\<close>

text \<open>\<open>strings.ToUpper\<close> on the ASCII letters; other bytes are kept (the names of the
  standard opcodes are ASCII).\<close>

definition ToUpper :: "string \<Rightarrow> string" where
  "ToUpper s =
     map (\<lambda>ch. if 97 \<le> (of_char ch :: nat) \<and> (of_char ch :: nat) \<le> 122
                then char_of ((of_char ch :: nat) - 32) else ch) s"

definition makeOpcodeMap :: "(string \<times> Opcode) list" where
  "makeOpcodeMap =
     [(''PUSH'', OpPUSH),
      (''PUSHI'', OpPUSHI),
      (''POP'', OpPOP),
      (''DUP'', OpDUP),
      (''SWAP'', OpSWAP),
      (''OVER'', OpOVER),
      (''ROT'', OpROT),
      (''ADD'', OpADD),
      (''SUB'', OpSUB),
      (''MUL'', OpMUL),
      (''DIV'', OpDIV),
      (''MOD'', OpMOD),
      (''NEG'', OpNEG),
      (''ABS'', OpABS),
      (''INC'', OpINC),
      (''DEC'', OpDEC),
      (''AND'', OpAND),
      (''OR'', OpOR),
      (''NOT'', OpNOT),
      (''XOR'', OpXOR),
      (''EQ'', OpEQ),
      (''NE'', OpNE),
      (''GT'', OpGT),
      (''LT'', OpLT),
      (''GE'', OpGE),
      (''LE'', OpLE),
      (''LOAD'', OpLOAD),
      (''STORE'', OpSTORE),
      (''LOADD'', OpLOADD),
      (''STORED'', OpSTORED),
      (''JMP'', OpJMP),
      (''JMPZ'', OpJMPZ),
      (''JMPNZ'', OpJMPNZ),
      (''CALL'', OpCALL),
      (''RET'', OpRET),
      (''HALT'', OpHALT),
      (''NOP'', OpNOP),
      (''SQRT'', OpSQRT),
      (''SIN'', OpSIN),
      (''COS'', OpCOS),
      (''TAN'', OpTAN),
      (''ASIN'', OpASIN),
      (''ACOS'', OpACOS),
      (''ATAN'', OpATAN),
      (''ATAN2'', OpATAN2),
      (''LOG'', OpLOG),
      (''LOG10'', OpLOG10),
      (''EXP'', OpEXP),
      (''POW'', OpPOW),
      (''MIN'', OpMIN),
      (''MAX'', OpMAX),
      (''FLOOR'', OpFLOOR),
      (''CEIL'', OpCEIL),
      (''ROUND'', OpROUND),
      (''TRUNC'', OpTRUNC)]"

text \<open>The map of the custom names: for each handler of the registry, the upper-cased name
  is bound to its opcode (the registry is ranged over by ascending opcode; Go leaves the
  order open, and it matters only when two handlers have the same name).\<close>

definition makeCustomMap :: "instructionRegistry option \<Rightarrow> (string \<times> Opcode) list" where
  "makeCustomMap registry =
     (case registry of
        None \<Rightarrow> []
      | Some r \<Rightarrow>
          foldl (\<lambda>m opcode. case r opcode of
                              None \<Rightarrow> m
                            | Some handler \<Rightarrow> map_assign m (ToUpper (handler_Name handler)) opcode)
            [] (map word_of_nat [0..<256]))"

definition emitNoOperand :: "ProgramBuilder \<Rightarrow> Opcode \<Rightarrow> error option \<times> ProgramBuilder" where
  "emitNoOperand builder opcode =
     (if opcode = OpPOP then (None, builder_Pop builder)
      else if opcode = OpDUP then (None, builder_Dup builder)
      else if opcode = OpSWAP then (None, builder_Swap builder)
      else if opcode = OpOVER then (None, builder_Over builder)
      else if opcode = OpROT then (None, builder_Rot builder)
      else if opcode = OpADD then (None, builder_Add builder)
      else if opcode = OpSUB then (None, builder_Sub builder)
      else if opcode = OpMUL then (None, builder_Mul builder)
      else if opcode = OpDIV then (None, builder_Div builder)
      else if opcode = OpMOD then (None, builder_Mod builder)
      else if opcode = OpNEG then (None, builder_Neg builder)
      else if opcode = OpABS then (None, builder_Abs builder)
      else if opcode = OpINC then (None, builder_Inc builder)
      else if opcode = OpDEC then (None, builder_Dec builder)
      else if opcode = OpAND then (None, builder_And builder)
      else if opcode = OpOR then (None, builder_Or builder)
      else if opcode = OpNOT then (None, builder_Not builder)
      else if opcode = OpXOR then (None, builder_Xor builder)
      else if opcode = OpEQ then (None, builder_Eq builder)
      else if opcode = OpNE then (None, builder_Ne builder)
      else if opcode = OpGT then (None, builder_Gt builder)
      else if opcode = OpLT then (None, builder_Lt builder)
      else if opcode = OpGE then (None, builder_Ge builder)
      else if opcode = OpLE then (None, builder_Le builder)
      else if opcode = OpLOADD then (None, builder_LoadD builder)
      else if opcode = OpSTORED then (None, builder_StoreD builder)
      else if opcode = OpRET then (None, builder_Ret builder)
      else if opcode = OpHALT then (None, builder_Halt builder)
      else if opcode = OpNOP then (None, builder_Nop builder)
      else if opcode = OpSQRT then (None, builder_Sqrt builder)
      else if opcode = OpSIN then (None, builder_Sin builder)
      else if opcode = OpCOS then (None, builder_Cos builder)
      else if opcode = OpTAN then (None, builder_Tan builder)
      else if opcode = OpASIN \<or> opcode = OpACOS \<or> opcode = OpATAN \<or> opcode = OpATAN2
        then (Some (Errorf (OpcodeNotYetImplemented opcode)), builder)
      else if opcode = OpLOG \<or> opcode = OpLOG10 \<or> opcode = OpEXP \<or> opcode = OpPOW
        then (Some (Errorf (OpcodeNotYetImplemented opcode)), builder)
      else if opcode = OpMIN then (None, builder_Min builder)
      else if opcode = OpMAX then (None, builder_Max builder)
      else if opcode = OpFLOOR then (None, builder_Floor builder)
      else if opcode = OpCEIL then (None, builder_Ceil builder)
      else if opcode = OpROUND then (None, builder_Round builder)
      else if opcode = OpTRUNC then (Some (Errorf TruncNotYetImplemented), builder)
      else if 128 \<le> opcode then (None, builder_Custom builder opcode 0)
      else (Some (Errorf (OpcodeRequiresOperand opcode)), builder))"

definition emitWithOperand ::
  "fpu \<Rightarrow> ProgramBuilder \<Rightarrow> Opcode \<Rightarrow> asm_Operand \<Rightarrow> error option \<times> ProgramBuilder" where
  "emitWithOperand u builder opcode operand =
     (if opcode = OpPUSH then
        (if opnd_Type operand \<noteq> OperandNumber
         then (Some (Errorf (RequiresNumericOperand ''PUSH'')), builder)
         else if opnd_IsFloat operand then (None, Push u builder (opnd_FloatValue operand))
         else (None, Push u builder (f64_of_int (sint (opnd_Number operand)))))
      else if opcode = OpPUSHI then
        (if opnd_Type operand \<noteq> OperandNumber
         then (Some (Errorf (RequiresNumericOperand ''PUSHI'')), builder)
         else (None, PushInt builder (opnd_Number operand)))
      else if opcode = OpLOAD then
        (if opnd_Type operand \<noteq> OperandNumber
         then (Some (Errorf (RequiresNumericOperand ''LOAD'')), builder)
         else (None, builder_Load builder (opnd_Number operand)))
      else if opcode = OpSTORE then
        (if opnd_Type operand \<noteq> OperandNumber
         then (Some (Errorf (RequiresNumericOperand ''STORE'')), builder)
         else (None, builder_Store builder (opnd_Number operand)))
      else if opcode = OpJMP then
        (if opnd_Type operand \<noteq> OperandLabel
         then (Some (Errorf (RequiresLabelOperand ''JMP'')), builder)
         else (None, builder_Jmp builder (opnd_Label operand)))
      else if opcode = OpJMPZ then
        (if opnd_Type operand \<noteq> OperandLabel
         then (Some (Errorf (RequiresLabelOperand ''JMPZ'')), builder)
         else (None, builder_JmpZ builder (opnd_Label operand)))
      else if opcode = OpJMPNZ then
        (if opnd_Type operand \<noteq> OperandLabel
         then (Some (Errorf (RequiresLabelOperand ''JMPNZ'')), builder)
         else (None, builder_JmpNZ builder (opnd_Label operand)))
      else if opcode = OpCALL then
        (if opnd_Type operand \<noteq> OperandLabel
         then (Some (Errorf (RequiresLabelOperand ''CALL'')), builder)
         else (None, builder_Call builder (opnd_Label operand)))
      else if 128 \<le> opcode then
        (if opnd_Type operand \<noteq> OperandNumber
         then (Some (Errorf CustomRequiresNumericOperand), builder)
         else (None, builder_Custom builder opcode (ucast (opnd_Number operand))))
      else (Some (Errorf (OpcodeNoOperands opcode)), builder))"

definition emitInstruction ::
  "fpu \<Rightarrow> ProgramBuilder \<Rightarrow> Statement \<Rightarrow> (string \<times> Opcode) list \<Rightarrow> (string \<times> Opcode) list \<Rightarrow>
   error option \<times> ProgramBuilder" where
  "emitInstruction u builder stmt opcodeMap customMap =
     (let opcodeName = ToUpper (stmt_Opcode stmt) in
      case (case map_of opcodeMap opcodeName of
              Some opcode \<Rightarrow> Some opcode
            | None \<Rightarrow> map_of customMap opcodeName) of
        None \<Rightarrow> (Some (Errorf (UnknownOpcode (stmt_Opcode stmt))), builder)
      | Some opcode \<Rightarrow>
          (case stmt_Operand stmt of
             None \<Rightarrow> emitNoOperand builder opcode
           | Some operand \<Rightarrow> emitWithOperand u builder opcode operand))"

text \<open>The loop of \<open>generate\<close> over the statements, and \<open>generate\<close>.\<close>

fun generate_loop ::
  "fpu \<Rightarrow> (string \<times> Opcode) list \<Rightarrow> (string \<times> Opcode) list \<Rightarrow> Statement list \<Rightarrow>
   ProgramBuilder \<Rightarrow> error + ProgramBuilder" where
  "generate_loop u opcodeMap customMap [] builder = Inr builder"
| "generate_loop u opcodeMap customMap (stmt # rest) builder =
     (if stmt_Type stmt = StmtLabel then
        generate_loop u opcodeMap customMap rest (builder_Label builder (stmt_Label stmt))
      else
        (case emitInstruction u builder stmt opcodeMap customMap of
           (Some err, builder') \<Rightarrow> Inl (ErrorfW (AtLine (stmt_Line stmt)) err)
         | (None, builder') \<Rightarrow> generate_loop u opcodeMap customMap rest builder'))"

record assembler =
  registry :: "instructionRegistry option"

definition NewAssembler :: assembler where
  "NewAssembler = \<lparr>registry = None\<rparr>"

definition SetRegistry :: "assembler \<Rightarrow> instructionRegistry option \<Rightarrow> assembler" where
  "SetRegistry a r = a\<lparr>registry := r\<rparr>"

definition generate :: "fpu \<Rightarrow> assembler \<Rightarrow> Statement list \<Rightarrow> error + Program" where
  "generate u a statements =
     (case generate_loop u makeOpcodeMap (makeCustomMap (registry a)) statements
             NewProgramBuilder of
        Inl err \<Rightarrow> Inl err
      | Inr builder \<Rightarrow> Build builder)"

definition wrapError :: "error \<Rightarrow> string \<Rightarrow> error" where
  "wrapError err src = AssemblerError 0 0 err []"

definition Assemble ::
  "(string \<Rightarrow> float64 option) \<Rightarrow> fpu \<Rightarrow> assembler \<Rightarrow> string \<Rightarrow> error + Program" where
  "Assemble pf u a src =
     (case Tokenize pf src of
        Inl err \<Rightarrow> Inl (wrapError err src)
      | Inr tokens \<Rightarrow>
          (case Parse pf tokens of
             Inl err \<Rightarrow> Inl (wrapError err src)
           | Inr statements \<Rightarrow>
               (case generate u a statements of
                  Inl err \<Rightarrow> Inl (wrapError err src)
                | Inr program \<Rightarrow> Inr program)))"

section \<open>Notions used in the properties\<close>

text \<open>The opcodes that \<open>instruction.go\<close> declares, and the sentinel errors of \<open>errors.go\<close>.\<close>

definition standard_opcodes :: "Opcode list" where
  "standard_opcodes =
     [OpPUSH, OpPUSHI, OpPOP, OpDUP, OpSWAP, OpOVER, OpROT,
      OpADD, OpSUB, OpMUL, OpDIV, OpMOD, OpNEG, OpABS, OpINC, OpDEC,
      OpAND, OpOR, OpNOT, OpXOR,
      OpEQ, OpNE, OpGT, OpLT, OpGE, OpLE,
      OpLOAD, OpSTORE, OpLOADD, OpSTORED,
      OpJMP, OpJMPZ, OpJMPNZ, OpCALL, OpRET, OpHALT, OpNOP,
      OpSQRT, OpSIN, OpCOS, OpTAN, OpASIN, OpACOS, OpATAN, OpATAN2,
      OpLOG, OpLOG10, OpEXP, OpPOW, OpMIN, OpMAX, OpFLOOR, OpCEIL, OpROUND, OpTRUNC]"

definition sentinel_errors :: "error list" where
  "sentinel_errors =
     [ErrStackOverflow, ErrStackUnderflow, ErrInvalidMemoryAddress, ErrReadOnlyMemory,
      ErrInvalidInstruction, ErrInvalidOpcode, ErrInstructionLimit, ErrDivisionByZero,
      ErrTypeMismatch, ErrTimeout, ErrInvalidOperand, ErrInvalidProgram, ErrUnresolvedLabel]"

text \<open>The main loop, at iteration \<open>k\<close> and in the state \<open>e\<close>, passes its checks (the
  instruction limit, the deadline, the cancellation) and fetches the instruction
  \<open>inst\<close>.\<close>

definition fetches ::
  "(nat \<Rightarrow> int) \<Rightarrow> Instruction list \<Rightarrow> uint32 \<Rightarrow> ExecuteOptions \<Rightarrow> nat \<Rightarrow> executor \<Rightarrow>
   Instruction \<Rightarrow> bool" where
  "fetches clock instrs maxInstructions opts k e inst =
     (\<not> halted e \<and> 0 \<le> sint (pc e) \<and> sint (pc e) < int (length instrs) \<and>
      \<not> (0 < maxInstructions \<and> maxInstructions \<le> instrCount e) \<and>
      \<not> (0 < Timeout opts \<and> Timeout opts < clock k) \<and>
      (case Context opts of None \<Rightarrow> True | Some ctx \<Rightarrow> ctx k = None) \<and>
      instrs ! nat (sint (pc e)) = inst)"

text \<open>
  The reference for the assembler's opcode table \<open>makeOpcodeMap\<close>: the opcode numeric
  assignment of the specification, which gives each standard opcode name its number
  (stack 0 to 6, arithmetic 16 to 24, logic 32 to 35, comparison 40 to 45, memory 48 to 51,
  control 56 to 62, math 64 to 81). It is written down from the specification and not from
  the code. The standard names are the names of this assignment.
\<close>

definition spec_opcode_assignment :: "(string \<times> Opcode) list" where
  "spec_opcode_assignment =
     [(''PUSH'', 0), (''PUSHI'', 1), (''POP'', 2), (''DUP'', 3), (''SWAP'', 4), (''OVER'', 5),
      (''ROT'', 6),
      (''ADD'', 16), (''SUB'', 17), (''MUL'', 18), (''DIV'', 19), (''MOD'', 20), (''NEG'', 21),
      (''ABS'', 22), (''INC'', 23), (''DEC'', 24),
      (''AND'', 32), (''OR'', 33), (''NOT'', 34), (''XOR'', 35),
      (''EQ'', 40), (''NE'', 41), (''GT'', 42), (''LT'', 43), (''GE'', 44), (''LE'', 45),
      (''LOAD'', 48), (''STORE'', 49), (''LOADD'', 50), (''STORED'', 51),
      (''JMP'', 56), (''JMPZ'', 57), (''JMPNZ'', 58), (''CALL'', 59), (''RET'', 60),
      (''HALT'', 61), (''NOP'', 62),
      (''SQRT'', 64), (''SIN'', 65), (''COS'', 66), (''TAN'', 67), (''ASIN'', 68),
      (''ACOS'', 69), (''ATAN'', 70), (''ATAN2'', 71), (''LOG'', 72), (''LOG10'', 73),
      (''EXP'', 74), (''POW'', 75), (''MIN'', 76), (''MAX'', 77), (''FLOOR'', 78),
      (''CEIL'', 79), (''ROUND'', 80), (''TRUNC'', 81)]"

definition standard_names :: "string list" where
  "standard_names = map fst spec_opcode_assignment"

text \<open>
  Nine of the standard names are refused by \<open>emitNoOperand\<close> as not yet implemented. A
  source line for a name: the mnemonic alone; the mnemonic and an integer literal for
  \<open>PUSH\<close>, \<open>PUSHI\<close>, \<open>LOAD\<close> and \<open>STORE\<close>; for \<open>JMP\<close>, \<open>JMPZ\<close>, \<open>JMPNZ\<close> and \<open>CALL\<close> the
  definition of a label followed by the mnemonic and the label.
\<close>

definition not_yet_implemented :: "string list" where
  "not_yet_implemented =
     [''ASIN'', ''ACOS'', ''ATAN'', ''ATAN2'', ''LOG'', ''LOG10'', ''EXP'', ''POW'', ''TRUNC'']"

definition numeric_operand_names :: "string list" where
  "numeric_operand_names = [''PUSH'', ''PUSHI'', ''LOAD'', ''STORE'']"

definition label_operand_names :: "string list" where
  "label_operand_names = [''JMP'', ''JMPZ'', ''JMPNZ'', ''CALL'']"

definition ident_char :: "char \<Rightarrow> bool" where
  "ident_char ch = (IsLetter ch \<or> IsDigit ch \<or> ch = CHR ''_'')"

definition is_identifier :: "string \<Rightarrow> bool" where
  "is_identifier s = (s \<noteq> [] \<and> (IsLetter (hd s) \<or> hd s = CHR ''_'') \<and> list_all ident_char s)"

definition int_literal :: "string \<Rightarrow> bool" where
  "int_literal s =
     (let ds = (if s \<noteq> [] \<and> hd s = CHR ''-'' then tl s else s)
      in ds \<noteq> [] \<and> list_all IsDigit ds \<and> ParseInt s \<noteq> None)"

definition source_line :: "string \<Rightarrow> string \<Rightarrow> string \<Rightarrow> string" where
  "source_line name lit lbl =
     (if name \<in> set numeric_operand_names then name @ '' '' @ lit
      else if name \<in> set label_operand_names then lbl @ '': '' @ name @ '' '' @ lbl
      else name)"

text \<open>
  For the concrete executions below: the zero value \<open>ExecuteOptions{}\<close>; a clock that
  stands still; an instance of the floating-point parameters for executions that perform
  no rounding operation (each operation returns a NaN, each unrepresentable conversion
  the smallest integer); and a custom handler in the manner of the package's tests and
  README, which pushes its operand as an integer through the context.
\<close>

definition no_options :: ExecuteOptions where
  "no_options = \<lparr>MaxInstructions = 0, MaxStackDepth = 0, Timeout = 0, Context = None\<rparr>"

definition still_clock :: "nat \<Rightarrow> int" where
  "still_clock k = 0"

definition nan_fpu :: fpu where
  "nan_fpu =
     (let nan1 = (\<lambda>x. Float64frombits 0x7FF8000000000001);
          nan2 = (\<lambda>x y. Float64frombits 0x7FF8000000000001)
      in \<lparr>f_add = nan2, f_sub = nan2, f_mul = nan2, f_div = nan2,
          math_Sqrt = nan1, math_Sin = nan1, math_Cos = nan1, math_Tan = nan1,
          math_Asin = nan1, math_Acos = nan1, math_Atan = nan1, math_Atan2 = nan2,
          math_Log = nan1, math_Log10 = nan1, math_Exp = nan1, math_Pow = nan2,
          math_Min = nan2, math_Max = nan2, math_Floor = nan1, math_Ceil = nan1,
          math_Round = nan1, math_Trunc = nan1,
          int64_unrepresentable = (\<lambda>x. 0x8000000000000000),
          int32_unrepresentable = (\<lambda>x. 0x80000000)\<rparr>)"

definition push_operand_handler :: InstructionHandler where
  "push_operand_handler =
     \<lparr>handler_Execute = (\<lambda>operand ctx. ctx_Push ctx (IntValue (scast operand))),
      handler_Name = ''PUSHOP''\<rparr>"

text \<open>An error that some handler of the configuration's registry returns, for some operand
  and some context.\<close>

definition handler_error :: "Config \<Rightarrow> error \<Rightarrow> bool" where
  "handler_error cfg err =
     (\<exists>registry opc handler operand ctx.
        InstructionRegistry cfg = Some registry \<and> registry opc = Some handler \<and>
        fst (handler_Execute handler operand ctx) = Some err)"

text \<open>
  The memory of an execution as it can become: from a memory \<open>m\<close>, by calls of \<open>Load\<close> and
  \<open>Store\<close> and by what the handlers of the configuration's registry make of the memory of
  their context. An error that the memory returns is an error of \<open>Load\<close> or \<open>Store\<close>, at
  some index; an error of the memory of an execution is one that the memory returns in a
  state that it can be in.
\<close>

inductive memory_reaches :: "Config \<Rightarrow> Memory \<Rightarrow> Memory \<Rightarrow> bool" for cfg :: Config and m :: Memory where
  start: "memory_reaches cfg m m"
| after_Load: "memory_reaches cfg m m' \<Longrightarrow> memory_reaches cfg m (snd (Load m' index))"
| after_Store: "memory_reaches cfg m m' \<Longrightarrow> memory_reaches cfg m (fst (Store m' index v))"
| after_handler:
    "memory_reaches cfg m m' \<Longrightarrow> InstructionRegistry cfg = Some reg \<Longrightarrow>
     reg opc = Some handler \<Longrightarrow> ctx_memory ctx = m' \<Longrightarrow>
     memory_reaches cfg m (ctx_memory (snd (handler_Execute handler operand ctx)))"

definition memory_returns :: "Memory \<Rightarrow> error \<Rightarrow> bool" where
  "memory_returns m err =
     (\<exists>index v. snd (fst (Load m index)) = Some err \<or> snd (Store m index v) = Some err)"

definition memory_error :: "Config \<Rightarrow> Memory \<Rightarrow> error \<Rightarrow> bool" where
  "memory_error cfg m err = (\<exists>m'. memory_reaches cfg m m' \<and> memory_returns m' err)"


text \<open>
  What holds of every execution that returns: the executor keeps its configuration; the
  \<open>Result\<close> holds the returned error, the instruction counter and the stack depth of
  the executor; an error is a sentinel error, or comes unchanged from a handler, from the
  memory or from the context; and without an error the halted flag is set unless the
  program counter is negative.
\<close>

definition returns_ok ::
  "Config \<Rightarrow> ExecuteOptions \<Rightarrow> Memory \<Rightarrow> Result \<times> error option \<times> executor \<times> Memory \<Rightarrow> bool" where
  "returns_ok cfg opts memory y =
     (case y of (r, err, e', memory') \<Rightarrow>
        config e' = cfg \<and> Error r = err \<and> InstructionCount r = instrCount e' \<and>
        StackDepth r = int (length (stack e')) \<and>
        (\<forall>x. err = Some x \<longrightarrow>
           x \<in> set sentinel_errors \<or> handler_error cfg x \<or> memory_error cfg memory x \<or>
           (\<exists>ctx k. Context opts = Some ctx \<and> ctx k = Some x)) \<and>
        (err = None \<longrightarrow> Halted r \<and> halted e' \<or> sint (pc e') < 0))"

section \<open>Properties of the codec\<close>

lemmas opcode_defs =
  OpPUSH_def OpPUSHI_def OpPOP_def OpDUP_def OpSWAP_def OpOVER_def OpROT_def
  OpADD_def OpSUB_def OpMUL_def OpDIV_def OpMOD_def OpNEG_def OpABS_def OpINC_def OpDEC_def
  OpAND_def OpOR_def OpNOT_def OpXOR_def
  OpEQ_def OpNE_def OpGT_def OpLT_def OpGE_def OpLE_def
  OpLOAD_def OpSTORE_def OpLOADD_def OpSTORED_def
  OpJMP_def OpJMPZ_def OpJMPNZ_def OpCALL_def OpRET_def OpHALT_def OpNOP_def
  OpSQRT_def OpSIN_def OpCOS_def OpTAN_def OpASIN_def OpACOS_def OpATAN_def OpATAN2_def
  OpLOG_def OpLOG10_def OpEXP_def OpPOW_def OpMIN_def OpMAX_def OpFLOOR_def OpCEIL_def
  OpROUND_def OpTRUNC_def

lemma le32_join:
  fixes v :: uint32
  shows "ucast (ucast v :: byte) OR push_bit 8 (ucast (ucast (drop_bit 8 v) :: byte))
     OR push_bit 16 (ucast (ucast (drop_bit 16 v) :: byte))
     OR push_bit 24 (ucast (ucast (drop_bit 24 v) :: byte)) = v"
proof (rule bit_word_eqI)
  fix n :: nat
  assume "n < LENGTH(32)"
  then have n: "n < 32" by simp
  have a: "8 + (n - 8) = n" if "8 \<le> n" using that by simp
  have b: "16 + (n - 16) = n" if "16 \<le> n" using that by simp
  have c: "24 + (n - 24) = n" if "24 \<le> n" using that by simp
  let ?w = "ucast (ucast v :: byte) OR push_bit 8 (ucast (ucast (drop_bit 8 v) :: byte))
     OR push_bit 16 (ucast (ucast (drop_bit 16 v) :: byte))
     OR push_bit 24 (ucast (ucast (drop_bit 24 v) :: byte)) :: uint32"
  consider "n < 8" | "8 \<le> n" "n < 16" | "16 \<le> n" "n < 24" | "24 \<le> n" "n < 32"
    using n by linarith
  then show "bit ?w n = bit v n"
    by cases (auto simp add: bit_or_iff bit_push_bit_iff bit_ucast_iff bit_drop_bit_eq a b c)
qed

lemma Uint32_PutUint32 [simp]: "Uint32 (PutUint32 v) = v"
  unfolding Uint32_def PutUint32_def by (simp add: le32_join)

lemma length_PutUint32 [simp]: "length (PutUint32 v) = 4"
  by (simp add: PutUint32_def)

lemma length_record_bytes [simp]: "length (record_bytes instr) = 5"
  by (simp add: record_bytes_def)

lemma length_body_bytes [simp]: "length (body_bytes instrs) = 5 * length instrs"
  by (induction instrs) (simp_all add: body_bytes_def)

lemma body_bytes_Cons: "body_bytes (instr # rest) = record_bytes instr @ body_bytes rest"
  by (simp add: body_bytes_def)

lemma encode_loop_eq:
  "length bytecode = offset + 5 * length instrs \<Longrightarrow>
   encode_loop instrs offset bytecode = take offset bytecode @ body_bytes instrs"
proof (induction instrs arbitrary: offset bytecode)
  case Nil
  then show ?case by (simp add: body_bytes_def)
next
  case (Cons instr rest)
  let ?b = "write_at (bytecode[offset := Opcode instr]) (offset + 1) (PutUint32 (Operand instr))"
  have len: "length ?b = (offset + 1 + 4) + 5 * length rest"
    using Cons.prems by (simp add: write_at_def)
  have "take (offset + 1 + 4) ?b = take offset bytecode @ record_bytes instr"
    using Cons.prems
    by (simp add: write_at_def record_bytes_def take_Suc_conv_app_nth [symmetric]
        upd_conv_take_nth_drop)
  with Cons.IH [OF len] show ?case
    by (simp add: body_bytes_Cons)
qed

lemma EncodeProgram_eq:
  "EncodeProgram (Some p) =
     Inr (PutUint32 (word_of_nat (length (instructions p))) @ body_bytes (instructions p))"
proof -
  let ?n = "length (instructions p)"
  let ?b = "write_at (replicate (4 + ?n * 5) (0 :: byte)) 0 (PutUint32 (word_of_nat ?n))"
  have "length ?b = 4 + 5 * ?n" by (simp add: write_at_def)
  then have "encode_loop (instructions p) 4 ?b = take 4 ?b @ body_bytes (instructions p)"
    by (rule encode_loop_eq)
  then show ?thesis
    by (simp add: EncodeProgram_def Let_def write_at_def)
qed

lemma decode_loop_body:
  "length pre = offset \<Longrightarrow> cnt = i + length rest \<Longrightarrow>
   decode_loop (pre @ body_bytes rest) cnt i offset acc = Inr (acc @ rest)"
proof (induction rest arbitrary: pre i offset acc)
  case Nil
  then show ?case by (simp add: decode_loop.simps body_bytes_def)
next
  case (Cons x rest)
  let ?data = "pre @ body_bytes (x # rest)"
  have data: "?data = (pre @ record_bytes x) @ body_bytes rest"
    by (simp add: body_bytes_Cons)
  have opc: "?data ! offset = Opcode x"
    using Cons.prems by (simp add: body_bytes_Cons record_bytes_def nth_append)
  have opr: "take 4 (drop (offset + 1) ?data) = PutUint32 (Operand x)"
    using Cons.prems by (simp add: body_bytes_Cons record_bytes_def)
  have eta: "\<lparr>Opcode = Opcode x, Operand = Operand x\<rparr> = x" by simp
  have step: "decode_loop ?data cnt i offset acc =
      decode_loop ?data cnt (i + 1) (offset + 1 + 4) (acc @ [x])"
    using Cons.prems opc opr
    by (subst decode_loop.simps) (simp add: eta)
  have "decode_loop ((pre @ record_bytes x) @ body_bytes rest) cnt (i + 1)
          (offset + 1 + 4) (acc @ [x]) = Inr ((acc @ [x]) @ rest)"
    by (rule Cons.IH) (use Cons.prems in simp_all)
  with step data show ?case by simp
qed

lemma DecodeProgram_encoded:
  assumes "length instrs < 2 ^ 32"
  shows "DecodeProgram (PutUint32 (word_of_nat (length instrs)) @ body_bytes instrs) =
     Inr (NewProgram instrs)"
proof -
  let ?hdr = "PutUint32 (word_of_nat (length instrs))"
  have un: "unat (word_of_nat (length instrs) :: uint32) = length instrs"
    using assms by (simp add: unat_of_nat)
  have loop: "decode_loop (?hdr @ body_bytes instrs) (length instrs) 0 4 [] = Inr ([] @ instrs)"
    by (rule decode_loop_body) simp_all
  show ?thesis
    by (simp add: DecodeProgram_def Let_def un loop)
qed

text \<open>
  C1 (as amended). For every program with fewer than \<open>2 ^ 32\<close> instructions (operands
  at the \<open>int32\<close> minimum and maximum and the empty vector included), \<open>EncodeProgram\<close>
  succeeds and \<open>DecodeProgram\<close> of its output is a program with the same instruction
  vector; and the program \<open>[PUSH 42, ADD]\<close> encodes to exactly the 14 bytes
  \<open>02 00 00 00 00 2A 00 00 00 10 00 00 00 00\<close>.
\<close>

theorem codec_roundtrip:
  "(\<forall>p. length (instructions p) < 2 ^ 32 \<longrightarrow>
      (\<exists>bs. EncodeProgram (Some p) = Inr bs \<and>
            DecodeProgram bs = Inr (NewProgram (instructions p)))) \<and>
   EncodeProgram (Some (NewProgram [NewInstruction OpPUSH 42, NewInstruction OpADD 0])) =
     Inr [0x02, 0x00, 0x00, 0x00, 0x00, 0x2A, 0x00, 0x00, 0x00, 0x10, 0x00, 0x00, 0x00, 0x00]"
proof (intro conjI allI impI)
  fix p :: Program
  assume "length (instructions p) < 2 ^ 32"
  then show "\<exists>bs. EncodeProgram (Some p) = Inr bs \<and>
            DecodeProgram bs = Inr (NewProgram (instructions p))"
    by (simp add: EncodeProgram_eq DecodeProgram_encoded)
next
  show "EncodeProgram (Some (NewProgram [NewInstruction OpPUSH 42, NewInstruction OpADD 0])) =
     Inr [0x02, 0x00, 0x00, 0x00, 0x00, 0x2A, 0x00, 0x00, 0x00, 0x10, 0x00, 0x00, 0x00, 0x00]"
    by (simp add: EncodeProgram_eq NewProgram_def NewInstruction_def body_bytes_def
        record_bytes_def PutUint32_def OpPUSH_def OpADD_def)
qed

text \<open>The round trip at a program whose operands are the \<open>int32\<close> minimum and maximum.\<close>

theorem codec_roundtrip_witness:
  "length (instructions (NewProgram [NewInstruction OpPUSHI 0x80000000,
       NewInstruction OpPUSHI 0x7FFFFFFF])) < 2 ^ 32 \<and>
   DecodeProgram [0x02, 0x00, 0x00, 0x00, 0x01, 0x00, 0x00, 0x00, 0x80,
                  0x01, 0xFF, 0xFF, 0xFF, 0x7F] =
     Inr (NewProgram [NewInstruction OpPUSHI 0x80000000, NewInstruction OpPUSHI 0x7FFFFFFF])"
proof -
  let ?p = "NewProgram [NewInstruction OpPUSHI 0x80000000, NewInstruction OpPUSHI 0x7FFFFFFF]"
  have len: "length (instructions ?p) < 2 ^ 32"
    by (simp add: NewProgram_def)
  have enc: "EncodeProgram (Some ?p) =
      Inr [0x02, 0x00, 0x00, 0x00, 0x01, 0x00, 0x00, 0x00, 0x80, 0x01, 0xFF, 0xFF, 0xFF, 0x7F]"
    by (simp add: EncodeProgram_eq NewProgram_def NewInstruction_def body_bytes_def
        record_bytes_def PutUint32_def OpPUSHI_def)
  from codec_roundtrip [THEN conjunct1, rule_format, OF len] enc
  have "DecodeProgram [0x02, 0x00, 0x00, 0x00, 0x01, 0x00, 0x00, 0x00, 0x80,
                  0x01, 0xFF, 0xFF, 0xFF, 0x7F] = Inr (NewProgram (instructions ?p))"
    by simp
  with len show ?thesis by (simp add: NewProgram_def)
qed

text \<open>
  C1 as stated, for every instruction vector, fails: the header holds the length modulo
  \<open>2 ^ 32\<close>, so a vector of \<open>2 ^ 32\<close> instructions is encoded with the count 0, and
  the decoder accepts these bytes (their length is \<open>4\<close> modulo \<open>2 ^ 32\<close>) as the empty
  program.
\<close>

theorem codec_roundtrip_counterexample:
  "EncodeProgram (Some (NewProgram (replicate (2 ^ 32) (NewInstruction OpNOP 0)))) =
     Inr (PutUint32 0 @ body_bytes (replicate (2 ^ 32) (NewInstruction OpNOP 0))) \<and>
   DecodeProgram (PutUint32 0 @ body_bytes (replicate (2 ^ 32) (NewInstruction OpNOP 0))) =
     Inr (NewProgram []) \<and>
   instructions (NewProgram []) \<noteq>
     instructions (NewProgram (replicate (2 ^ 32) (NewInstruction OpNOP 0)))"
proof (intro conjI)
  have wrap: "(word_of_nat (2 ^ 32) :: uint32) = 0" by simp
  show "EncodeProgram (Some (NewProgram (replicate (2 ^ 32) (NewInstruction OpNOP 0)))) =
     Inr (PutUint32 0 @ body_bytes (replicate (2 ^ 32) (NewInstruction OpNOP 0)))"
    by (simp only: EncodeProgram_eq NewProgram_def Program.simps length_replicate wrap)
  show "DecodeProgram (PutUint32 0 @ body_bytes (replicate (2 ^ 32) (NewInstruction OpNOP 0))) =
     Inr (NewProgram [])"
    by (simp add: DecodeProgram_def Let_def decode_loop.simps)
  have "length (replicate (2 ^ 32) (NewInstruction OpNOP 0)) \<noteq> length ([] :: Instruction list)"
    by simp
  then show "instructions (NewProgram []) \<noteq>
     instructions (NewProgram (replicate (2 ^ 32) (NewInstruction OpNOP 0)))"
    by (auto simp add: NewProgram_def simp del: length_replicate)
qed

text \<open>
  C8. The claim says that a buffer whose length is not \<open>4 + 5 * count\<close> over the
  unbounded integers is rejected with \<open>ErrInvalidProgram\<close>, without a panic. The code
  computes \<open>4 + count * 5\<close> in \<open>uint32\<close>: for the eight bytes
  \<open>34 33 33 33 00 00 00 00\<close> the count is 858993460, the expected size wraps around to
  8, the length check passes, and the loop reads beyond the buffer.
\<close>

theorem decode_overflow_panics:
  "DecodeProgram [0x34, 0x33, 0x33, 0x33, 0x00, 0x00, 0x00, 0x00] = Inl RuntimePanic"
  by (simp add: DecodeProgram_def Let_def Uint32_def decode_loop.simps)

section \<open>Properties of the executor\<close>

lemma f64_zero_eq: "f64_eq (f64_of_int 0) (Float64frombits 0)"
  by (simp add: f64_eq_def f64_of_int_def f64_isNaN_def f64_exp_def f64_frac_def)

lemmas exec_simps = Execute_def exec_loop.simps executeInstruction_def opcode_defs
  NewProgram_def NewInstruction_def New_def NewWithConfig_def newExecutor_def Let_def
  push_def pop_def peek_def on_stack_def jump_to_def no_options_def

lemma sentinel_simps [simp]:
  "ErrStackOverflow \<in> set sentinel_errors" "ErrStackUnderflow \<in> set sentinel_errors"
  "ErrInvalidMemoryAddress \<in> set sentinel_errors" "ErrInvalidOpcode \<in> set sentinel_errors"
  "ErrInstructionLimit \<in> set sentinel_errors" "ErrDivisionByZero \<in> set sentinel_errors"
  "ErrTypeMismatch \<in> set sentinel_errors" "ErrTimeout \<in> set sentinel_errors"
  by (simp_all add: sentinel_errors_def)

lemma push_cases:
  "push e v m = (err, e') \<Longrightarrow>
   config e' = config e \<and> (\<forall>x. err = Some x \<longrightarrow> x = ErrStackOverflow)"
  by (auto simp: push_def split: if_splits)

lemma pop_cases:
  "pop e = ((v, err), e') \<Longrightarrow>
   config e' = config e \<and> (\<forall>x. err = Some x \<longrightarrow> x = ErrStackUnderflow)"
  by (auto simp: pop_def split: if_splits)

lemma peek_cases: "peek e = (v, Some x) \<Longrightarrow> x = ErrStackUnderflow"
  by (auto simp: peek_def split: if_splits)

lemma AsFloat_err: "AsFloat v = (f, Some x) \<Longrightarrow> x = ErrTypeMismatch"
  by (auto simp: AsFloat_def split: if_splits data.splits)

lemma AsInt_err: "AsInt v = (i, Some x) \<Longrightarrow> x = ErrTypeMismatch"
  by (auto simp: AsInt_def split: if_splits data.splits)

lemma toFloat64_err: "toFloat64 v = (f, Some x) \<Longrightarrow> x = ErrTypeMismatch"
  by (auto simp: toFloat64_def split: if_splits prod.splits option.splits dest: AsFloat_err AsInt_err)

lemma toInt64_err: "toInt64 u v = (i, Some x) \<Longrightarrow> x = ErrTypeMismatch"
  by (auto simp: toInt64_def split: if_splits prod.splits option.splits dest: AsFloat_err AsInt_err)

lemma numericOp_err: "numericOp a b op = (r, Some x) \<Longrightarrow> x = ErrTypeMismatch"
  by (auto simp: numericOp_def split: prod.splits option.splits dest: toFloat64_err)

lemma unaryOp_err: "unaryOp a op = (r, Some x) \<Longrightarrow> x = ErrTypeMismatch"
  by (auto simp: unaryOp_def split: prod.splits option.splits dest: toFloat64_err)

lemma numeric_binary_err: "snd (numeric_binary op s) = Some x \<Longrightarrow> x \<in> set sentinel_errors"
  by (auto simp: numeric_binary_def Let_def split: if_splits prod.splits option.splits
      dest: numericOp_err)

lemma numeric_unary_err: "snd (numeric_unary op s) = Some x \<Longrightarrow> x \<in> set sentinel_errors"
  by (auto simp: numeric_unary_def Let_def split: if_splits prod.splits option.splits
      dest: unaryOp_err)

lemma bool_binary_err: "snd (bool_binary op s) = Some x \<Longrightarrow> x \<in> set sentinel_errors"
  by (auto simp: bool_binary_def Let_def split: if_splits)

lemma float_binary_err: "snd (float_binary op s) = Some x \<Longrightarrow> x \<in> set sentinel_errors"
  by (auto simp: float_binary_def Let_def split: if_splits prod.splits option.splits
      dest: toFloat64_err)

lemma mathUnaryOp_err: "snd (mathUnaryOp s op) = Some x \<Longrightarrow> x \<in> set sentinel_errors"
  by (auto simp: mathUnaryOp_def Let_def split: if_splits prod.splits option.splits
      dest: toFloat64_err)

lemma opDiv_err: "snd (opDiv u s) = Some x \<Longrightarrow> x \<in> set sentinel_errors"
  by (auto simp: opDiv_def Let_def split: if_splits prod.splits option.splits
      dest: toFloat64_err numericOp_err)

lemma opMod_err: "snd (opMod u s) = Some x \<Longrightarrow> x \<in> set sentinel_errors"
  by (auto simp: opMod_def Let_def split: if_splits prod.splits option.splits
      dest: toInt64_err)

lemma opAbs_err: "snd (opAbs s) = Some x \<Longrightarrow> x \<in> set sentinel_errors"
  by (auto simp: opAbs_def Let_def split: if_splits prod.splits option.splits
      dest: toFloat64_err)

lemma opNot_err: "snd (opNot s) = Some x \<Longrightarrow> x \<in> set sentinel_errors"
  by (auto simp: opNot_def Let_def split: if_splits)

lemmas op_defs = opAdd_def opSub_def opMul_def opNeg_def opInc_def opDec_def opAnd_def
  opOr_def opXor_def opEq_def opNe_def opGt_def opLt_def opGe_def opLe_def opSqrt_def
  opSin_def opCos_def opTan_def opAsin_def opAcos_def opAtan_def opAtan2_def opLog_def
  opLog10_def opExp_def opPow_def opMin_def opMax_def opFloor_def opCeil_def opRound_def
  opTrunc_def

lemmas op_errs = numeric_binary_err numeric_unary_err bool_binary_err float_binary_err
  mathUnaryOp_err opDiv_err opMod_err opAbs_err opNot_err

lemma Load_returns: "Load m i = ((v, Some x), m') \<Longrightarrow> memory_returns m x"
  unfolding memory_returns_def by (metis fst_conv snd_conv)

lemma Store_returns: "Store m i v = (m', Some x) \<Longrightarrow> memory_returns m x"
  unfolding memory_returns_def by (metis snd_conv)

lemma Load_reaches: "Load m i = (r, m') \<Longrightarrow> memory_reaches cfg m m'"
  using memory_reaches.after_Load [OF memory_reaches.start, of cfg m i] by simp

lemma Store_reaches: "Store m i v = (m', err) \<Longrightarrow> memory_reaches cfg m m'"
  using memory_reaches.after_Store [OF memory_reaches.start, of cfg m i v] by simp

lemma handler_reaches:
  "InstructionRegistry cfg = Some reg \<Longrightarrow> reg opc = Some handler \<Longrightarrow>
   handler_Execute handler operand (view_of e m ud) = (err, ctx) \<Longrightarrow>
   memory_reaches cfg m (ctx_memory ctx)"
  using memory_reaches.after_handler [OF memory_reaches.start, of cfg reg opc handler
      "view_of e m ud" m operand]
  by (simp add: view_of_def)

lemma memory_reaches_trans:
  assumes "memory_reaches cfg m m'" and "memory_reaches cfg m' m''"
  shows "memory_reaches cfg m m''"
  using assms(2) assms(1)
  by (induction rule: memory_reaches.induct) (auto intro: memory_reaches.intros)

lemma memory_error_start: "memory_returns m x \<Longrightarrow> memory_error cfg m x"
  unfolding memory_error_def using memory_reaches.start by blast

lemma memory_error_later:
  "memory_reaches cfg m m' \<Longrightarrow> memory_error cfg m' x \<Longrightarrow> memory_error cfg m x"
  unfolding memory_error_def using memory_reaches_trans by blast

lemma on_stack_cases:
  "on_stack e memory ud r = (err, e', memory', ud') \<Longrightarrow>
   config e' = config e \<and> err = snd r"
  by (auto simp: on_stack_def)

lemma handler_errorI:
  "InstructionRegistry cfg = Some reg \<Longrightarrow> reg opc = Some handler \<Longrightarrow>
   handler_Execute handler operand ctx = (Some err, ctx') \<Longrightarrow> handler_error cfg err"
  unfolding handler_error_def by (metis fst_conv)

lemma executeInstruction_cases:
  assumes "executeInstruction u e inst memory msd ud = (err, e', memory', ud')"
  shows "config e' = config e \<and>
     (\<forall>x. err = Some x \<longrightarrow>
        x \<in> set sentinel_errors \<or> handler_error (config e) x \<or> memory_returns memory x)"
  using assms
  unfolding executeInstruction_def Let_def
  apply (simp only: split: if_splits)
  apply (auto simp: on_stack_def op_defs push_def pop_def peek_def
      jump_to_def absorb_def registry_Get_def
      split: prod.splits option.splits if_splits
      dest: op_errs toInt64_err handler_errorI Load_returns Store_returns)
  done

lemma executeInstruction_memory:
  assumes "executeInstruction u e inst memory msd ud = (err, e', memory', ud')"
  shows "memory_reaches (config e) memory memory'"
  using assms
  unfolding executeInstruction_def Let_def
  apply (simp only: split: if_splits)
  apply (auto simp: on_stack_def registry_Get_def
      split: prod.splits option.splits if_splits
      intro: memory_reaches.start Load_reaches Store_reaches handler_reaches)
  done

lemma returns_ok_later:
  assumes "returns_ok cfg opts memory' y" and "memory_reaches cfg memory memory'"
  shows "returns_ok cfg opts memory y"
  using assms memory_error_later [OF assms(2)]
  unfolding returns_ok_def by (auto split: prod.splits)

lemma exec_loop_returns_ok:
  assumes "exec_loop u clock instrs mi msd opts k e memory ud = Some y"
  shows "returns_ok (config e) opts memory y"
proof (rule exec_loop.raw_induct [where P = "\<lambda>u clock instrs mi msd opts k e memory ud y.
    returns_ok (config e) opts memory y", OF _ assms])
  fix f :: "fpu \<Rightarrow> (nat \<Rightarrow> int) \<Rightarrow> Instruction list \<Rightarrow> uint32 \<Rightarrow> int \<Rightarrow> ExecuteOptions \<Rightarrow>
      nat \<Rightarrow> executor \<Rightarrow> Memory \<Rightarrow> (string \<Rightarrow> data option) \<Rightarrow>
      (Result \<times> error option \<times> executor \<times> Memory) option"
    and u clock instrs mi msd opts k and e :: executor and memory ud y
  assume IH: "\<And>u clock instrs mi msd opts k e memory ud y.
      f u clock instrs mi msd opts k e memory ud = Some y \<Longrightarrow>
      returns_ok (config (e :: executor)) opts memory y"
  assume body: "(if \<not> halted e \<and> 0 \<le> sint (pc e) \<and> sint (pc e) < int (length instrs) then
        (if 0 < mi \<and> mi \<le> instrCount e then
           Some (\<lparr>InstructionCount = instrCount e, StackDepth = int (length (stack e)),
                   Halted = False, Error = Some ErrInstructionLimit\<rparr>,
                 Some ErrInstructionLimit, e, memory)
         else if 0 < Timeout opts \<and> Timeout opts < clock k then
           Some (\<lparr>InstructionCount = instrCount e, StackDepth = int (length (stack e)),
                   Halted = False, Error = Some ErrTimeout\<rparr>,
                 Some ErrTimeout, e, memory)
         else
           (case (case Context opts of None \<Rightarrow> None | Some ctx \<Rightarrow> ctx k) of
              Some err \<Rightarrow>
                Some (\<lparr>InstructionCount = instrCount e, StackDepth = int (length (stack e)),
                        Halted = False, Error = Some err\<rparr>,
                      Some err, e, memory)
            | None \<Rightarrow>
                (case executeInstruction u (e\<lparr>instrCount := instrCount e + 1\<rparr>)
                        (instrs ! nat (sint (pc e))) memory msd ud of
                   (Some err, e', memory', ud') \<Rightarrow>
                     Some (\<lparr>InstructionCount = instrCount e',
                             StackDepth = int (length (stack e')),
                             Halted = halted e', Error = Some err\<rparr>,
                           Some err, e', memory')
                 | (None, e', memory', ud') \<Rightarrow>
                     f u clock instrs mi msd opts (k + 1)
                       (if \<not> halted e' then e'\<lparr>pc := pc e' + 1\<rparr> else e') memory' ud')))
      else
        (let e' = (if \<not> halted e \<and> int (length instrs) \<le> sint (pc e)
                   then e\<lparr>halted := True\<rparr> else e)
         in Some (\<lparr>InstructionCount = instrCount e', StackDepth = int (length (stack e')),
                    Halted = halted e', Error = None\<rparr>,
                  None, e', memory))) = Some y"
  show "returns_ok (config e) opts memory y"
  proof (cases "\<not> halted e \<and> 0 \<le> sint (pc e) \<and> sint (pc e) < int (length instrs)")
    case False
    with body show ?thesis
      by (auto simp: returns_ok_def Let_def split: if_splits)
  next
    case True
    note guard = True
    show ?thesis
    proof (cases "0 < mi \<and> mi \<le> instrCount e")
      case True
      with body guard show ?thesis by (auto simp: returns_ok_def)
    next
      case nolimit: False
      show ?thesis
      proof (cases "0 < Timeout opts \<and> Timeout opts < clock k")
        case True
        with body guard nolimit show ?thesis by (auto simp: returns_ok_def)
      next
        case notimeout: False
        show ?thesis
        proof (cases "case Context opts of None \<Rightarrow> None | Some ctx \<Rightarrow> ctx k")
          case (Some x)
          with body guard nolimit notimeout have "y = (\<lparr>InstructionCount = instrCount e,
              StackDepth = int (length (stack e)), Halted = False, Error = Some x\<rparr>,
              Some x, e, memory)"
            by simp
          moreover from Some have "\<exists>ctx k. Context opts = Some ctx \<and> ctx k = Some x"
            by (auto split: option.splits)
          ultimately show ?thesis by (simp add: returns_ok_def)
        next
          case None
          obtain err e' memory' ud' where
            step: "executeInstruction u (e\<lparr>instrCount := instrCount e + 1\<rparr>)
                        (instrs ! nat (sint (pc e))) memory msd ud = (err, e', memory', ud')"
            by (metis prod_cases4)
          from executeInstruction_cases [OF step]
          have cfg: "config e' = config e"
            and errs: "\<And>x. err = Some x \<Longrightarrow>
              x \<in> set sentinel_errors \<or> handler_error (config e) x \<or>
              memory_error (config e) memory x"
            by (auto intro: memory_error_start)
          from executeInstruction_memory [OF step]
          have reach: "memory_reaches (config e) memory memory'"
            by simp
          show ?thesis
          proof (cases err)
            case (Some x)
            with body guard nolimit notimeout None step
            have "y = (\<lparr>InstructionCount = instrCount e', StackDepth = int (length (stack e')),
                             Halted = halted e', Error = Some x\<rparr>, Some x, e', memory')"
              by simp
            with errs [OF Some] cfg show ?thesis by (auto simp: returns_ok_def)
          next
            case noerr: None
            with body guard nolimit notimeout None step
            have "f u clock instrs mi msd opts (k + 1)
                       (if \<not> halted e' then e'\<lparr>pc := pc e' + 1\<rparr> else e') memory' ud' = Some y"
              by simp
            from IH [OF this] cfg
            have "returns_ok (config e) opts memory' y" by (simp split: if_splits)
            from returns_ok_later [OF this reach] show ?thesis .
          qed
        qed
      qed
    qed
  qed
qed


lemma Execute_returns_ok:
  assumes "Execute u clock e program memory opts = Some y"
  shows "returns_ok (config e) opts memory y"
proof -
  from assms obtain mi msd where
    "exec_loop u clock (instructions program) mi msd opts 0
       (e\<lparr>stack := [], pc := 0, halted := False, instrCount := 0\<rparr>) memory (\<lambda>key. None) = Some y"
    by (simp add: Execute_def Let_def)
  from exec_loop_returns_ok [OF this] show ?thesis by simp
qed





text \<open>
  C7 (as amended). For every execution that returns without an error and whose final
  program counter is not negative (the program has run past its end, has executed
  \<open>HALT\<close> or \<open>RET\<close>, or has jumped to a target at or beyond the end), the \<open>Result\<close> has
  the halted flag set.
\<close>

theorem halted_on_return:
  assumes "Execute u clock e program memory opts = Some (r, None, e', memory')"
    and "0 \<le> sint (pc e')"
  shows "Halted r"
  using Execute_returns_ok [OF assms(1)] assms(2) by (simp add: returns_ok_def)

text \<open>A jump beyond the last instruction: \<open>JMP 7\<close> in a program of one instruction.\<close>

theorem halted_on_return_witness:
  "Execute nan_fpu still_clock New (NewProgram [NewInstruction OpJMP 7]) (NewSimpleMemory 0)
     no_options =
   Some (\<lparr>InstructionCount = 1, StackDepth = 0, Halted = True, Error = None\<rparr>, None,
         New\<lparr>pc := 7, halted := True, instrCount := 1\<rparr>, NewSimpleMemory 0) \<and>
   0 \<le> sint (pc (New\<lparr>pc := 7, halted := True, instrCount := 1\<rparr>)) \<and>
   Halted \<lparr>InstructionCount = 1, StackDepth = 0, Halted = True, Error = None\<rparr>"
proof -
  have run: "Execute nan_fpu still_clock New (NewProgram [NewInstruction OpJMP 7])
     (NewSimpleMemory 0) no_options =
   Some (\<lparr>InstructionCount = 1, StackDepth = 0, Halted = True, Error = None\<rparr>, None,
         New\<lparr>pc := 7, halted := True, instrCount := 1\<rparr>, NewSimpleMemory 0)"
    by (simp add: exec_simps)
  have pos: "0 \<le> sint (pc (New\<lparr>pc := 7, halted := True, instrCount := 1\<rparr>))"
    by simp
  from halted_on_return [OF run pos] run pos show ?thesis by simp
qed

lemma executeInstruction_unassigned:
  assumes "Opcode inst < 128" and "Opcode inst \<notin> set standard_opcodes"
  shows "executeInstruction u e inst memory msd ud = (Some ErrInvalidOpcode, e, memory, ud)"
proof -
  from assms(1) have "\<not> 128 \<le> Opcode inst" by simp
  with assms(2) show ?thesis
    by (simp add: executeInstruction_def standard_opcodes_def Let_def)
qed

text \<open>
  C9. Whenever the main loop fetches an instruction whose opcode is below 128 and is
  none of the declared opcodes, the execution ends there with \<open>ErrInvalidOpcode\<close>,
  whatever the configuration of the executor (and so whether or not it has a registry).
\<close>

theorem unassigned_opcode_invalid:
  assumes "Opcode inst < 128" and "Opcode inst \<notin> set standard_opcodes"
    and "fetches clock instrs mi opts k e inst"
  shows "exec_loop u clock instrs mi msd opts k e memory ud =
     Some (\<lparr>InstructionCount = instrCount e + 1, StackDepth = int (length (stack e)),
             Halted = False, Error = Some ErrInvalidOpcode\<rparr>,
           Some ErrInvalidOpcode, e\<lparr>instrCount := instrCount e + 1\<rparr>, memory)"
proof -
  from assms(3) have ctx: "(case Context opts of None \<Rightarrow> None | Some ctx \<Rightarrow> ctx k) = None"
    by (simp add: fetches_def split: option.splits)
  from assms(3) have inst: "instrs ! nat (sint (pc e)) = inst"
    by (simp add: fetches_def)
  show ?thesis
    using assms(3)
    by (subst exec_loop.simps)
      (simp add: fetches_def ctx inst executeInstruction_unassigned [OF assms(1,2)])
qed

text \<open>Opcode 100 on a machine whose registry has a handler for opcode 128.\<close>

theorem unassigned_opcode_invalid_witness:
  "Execute nan_fpu still_clock
     (NewWithConfig \<lparr>StackSize = 256, DefaultInstrLimit = 0,
        InstructionRegistry = Some (NewInstructionRegistry(128 \<mapsto> push_operand_handler))\<rparr>)
     (NewProgram [NewInstruction 100 0, NewInstruction OpHALT 0]) (NewSimpleMemory 0) no_options =
   Some (\<lparr>InstructionCount = 1, StackDepth = 0, Halted = False, Error = Some ErrInvalidOpcode\<rparr>,
         Some ErrInvalidOpcode,
         \<lparr>config = \<lparr>StackSize = 256, DefaultInstrLimit = 0,
            InstructionRegistry = Some (NewInstructionRegistry(128 \<mapsto> push_operand_handler))\<rparr>,
          stack = [], pc = 0, halted = False, instrCount = 1\<rparr>,
         NewSimpleMemory 0)"
proof -
  let ?cfg = "\<lparr>StackSize = 256, DefaultInstrLimit = 0,
        InstructionRegistry = Some (NewInstructionRegistry(128 \<mapsto> push_operand_handler))\<rparr>"
  let ?e = "\<lparr>config = ?cfg, stack = [], pc = 0, halted = False, instrCount = 0\<rparr>"
  let ?inst = "NewInstruction 100 0"
  have a: "Opcode ?inst < 128" by (simp add: NewInstruction_def)
  have b: "Opcode ?inst \<notin> set standard_opcodes"
    by (simp add: NewInstruction_def standard_opcodes_def opcode_defs)
  have c: "fetches still_clock [?inst, NewInstruction OpHALT 0] 0 no_options 0 ?e ?inst"
    by (simp add: fetches_def no_options_def)
  from unassigned_opcode_invalid [OF a b c, of nan_fpu 256 "NewSimpleMemory 0" "\<lambda>key. None"]
  show ?thesis
    by (simp add: Execute_def NewWithConfig_def newExecutor_def NewProgram_def no_options_def)
qed

lemma reset_eq:
  fixes a b :: executor
  shows "config a = config b \<Longrightarrow>
   a\<lparr>stack := [], pc := 0, halted := False, instrCount := 0\<rparr> =
   b\<lparr>stack := [], pc := 0, halted := False, instrCount := 0\<rparr>"
  by (cases a, cases b) simp

lemma Execute_config_only:
  assumes "config a = config b"
  shows "Execute u clock a program memory opts = Execute u clock b program memory opts"
  unfolding Execute_def Let_def reset_eq [OF assms] ..

text \<open>
  C10. \<open>Execute\<close> depends on the executor through its configuration only: on a machine
  that has already executed another program (and was not reset), it gives what it gives
  on a freshly constructed machine of the same configuration, for every program, memory,
  options, clock and floating-point unit: the same \<open>Result\<close> (instruction count, stack
  depth, halted flag, error), or in both cases no return.
\<close>

theorem execute_on_used_vm:
  assumes "Execute u clock0 (NewWithConfig cfg) program0 memory0 opts0 =
      Some (r0, err0, e1, memory1)"
  shows "Execute u clock e1 program memory opts =
     Execute u clock (NewWithConfig cfg) program memory opts"
proof -
  from Execute_returns_ok [OF assms] have "config e1 = config (NewWithConfig cfg)"
    by (simp add: returns_ok_def)
  then show ?thesis by (rule Execute_config_only)
qed

text \<open>A machine left by a failed execution with a program counter of 4 and five
  instructions counted runs the next program as a new machine does.\<close>

theorem execute_on_used_vm_witness:
  "Execute nan_fpu still_clock New
     (NewProgram [NewInstruction OpPUSHI 1, NewInstruction OpPUSHI 2, NewInstruction OpPOP 0,
                  NewInstruction OpPOP 0, NewInstruction OpPOP 0])
     (NewSimpleMemory 0) no_options =
   Some (\<lparr>InstructionCount = 5, StackDepth = 0, Halted = False, Error = Some ErrStackUnderflow\<rparr>,
         Some ErrStackUnderflow, New\<lparr>pc := 4, instrCount := 5\<rparr>, NewSimpleMemory 0) \<and>
   Execute nan_fpu still_clock (New\<lparr>pc := 4, instrCount := 5\<rparr>)
     (NewProgram [NewInstruction OpPUSHI 7, NewInstruction OpHALT 0])
     (NewSimpleMemory 0) no_options =
   Some (\<lparr>InstructionCount = 2, StackDepth = 1, Halted = True, Error = None\<rparr>, None,
         New\<lparr>stack := [IntValue 7], pc := 1, halted := True, instrCount := 2\<rparr>,
         NewSimpleMemory 0)"
proof -
  let ?cfg = "\<lparr>StackSize = 256, DefaultInstrLimit = 0, InstructionRegistry = None\<rparr>"
  have first: "Execute nan_fpu still_clock (NewWithConfig ?cfg)
     (NewProgram [NewInstruction OpPUSHI 1, NewInstruction OpPUSHI 2, NewInstruction OpPOP 0,
                  NewInstruction OpPOP 0, NewInstruction OpPOP 0])
     (NewSimpleMemory 0) no_options =
   Some (\<lparr>InstructionCount = 5, StackDepth = 0, Halted = False, Error = Some ErrStackUnderflow\<rparr>,
         Some ErrStackUnderflow, New\<lparr>pc := 4, instrCount := 5\<rparr>, NewSimpleMemory 0)"
    by (simp add: exec_simps)
  have fresh: "Execute nan_fpu still_clock (NewWithConfig ?cfg)
     (NewProgram [NewInstruction OpPUSHI 7, NewInstruction OpHALT 0])
     (NewSimpleMemory 0) no_options =
   Some (\<lparr>InstructionCount = 2, StackDepth = 1, Halted = True, Error = None\<rparr>, None,
         New\<lparr>stack := [IntValue 7], pc := 1, halted := True, instrCount := 2\<rparr>,
         NewSimpleMemory 0)"
    by (simp add: exec_simps)
  from execute_on_used_vm [OF first, of still_clock
      "NewProgram [NewInstruction OpPUSHI 7, NewInstruction OpHALT 0]" "NewSimpleMemory 0"
      no_options] first fresh
  show ?thesis by (simp add: New_def)
qed

lemma div_by_zero_run:
  "Execute u clock New
     (NewProgram [NewInstruction OpPUSH 1, NewInstruction OpPUSH 0, NewInstruction OpDIV 0,
                  NewInstruction OpHALT 0])
     (NewSimpleMemory 0) no_options =
   Some (\<lparr>InstructionCount = 3, StackDepth = 0, Halted = False, Error = Some ErrDivisionByZero\<rparr>,
         Some ErrDivisionByZero,
         New\<lparr>pc := 2, instrCount := 3\<rparr>, NewSimpleMemory 0)"
  by (simp add: exec_simps opDiv_def toFloat64_def FloatValue_def AsFloat_def
      TypeFloat_def TypeInt_def f64_zero_eq)

text \<open>
  C4 (as amended). Executing \<open>PUSH 1; PUSH 0; DIV; HALT\<close> returns the error
  \<open>ErrDivisionByZero\<close> with three instructions executed; the stack depth reported with
  the error is 0, because \<open>opDiv\<close> has popped both operands before it finds the divisor
  to be zero.
\<close>

theorem div_by_zero_result:
  "Execute nan_fpu still_clock New
     (NewProgram [NewInstruction OpPUSH 1, NewInstruction OpPUSH 0, NewInstruction OpDIV 0,
                  NewInstruction OpHALT 0])
     (NewSimpleMemory 0) no_options =
   Some (\<lparr>InstructionCount = 3, StackDepth = 0, Halted = False, Error = Some ErrDivisionByZero\<rparr>,
         Some ErrDivisionByZero,
         New\<lparr>pc := 2, instrCount := 3\<rparr>, NewSimpleMemory 0)"
  by (rule div_by_zero_run)

text \<open>C4 as stated fails: the stack depth reported is not the depth 2 before the fault.\<close>

theorem div_by_zero_depth_counterexample:
  "StackDepth (fst (the (Execute nan_fpu still_clock New
     (NewProgram [NewInstruction OpPUSH 1, NewInstruction OpPUSH 0, NewInstruction OpDIV 0,
                  NewInstruction OpHALT 0])
     (NewSimpleMemory 0) no_options))) \<noteq> 2"
  by (simp add: div_by_zero_run)


text \<open>
  C7 as stated fails: after \<open>JMP -5\<close> the program counter is negative, the loop stops,
  and \<open>Execute\<close> returns without an error and with the halted flag not set.
\<close>

theorem negative_jump_counterexample:
  "Execute nan_fpu still_clock New (NewProgram [NewInstruction OpJMP (- 5)]) (NewSimpleMemory 0)
     no_options =
   Some (\<lparr>InstructionCount = 1, StackDepth = 0, Halted = False, Error = None\<rparr>,
         None, New\<lparr>pc := - 5, instrCount := 1\<rparr>, NewSimpleMemory 0)"
  by (simp add: exec_simps)

text \<open>
  C2. The claim says that the stack depth never exceeds the effective \<open>MaxStackDepth\<close>,
  also when a custom handler pushes. \<open>Push\<close> of the execution context compares the depth
  with the \<open>StackSize\<close> of the configuration, not with the limit of the options: with
  \<open>MaxStackDepth = 1\<close> on a machine of stack size 256, a handler that pushes its operand
  grows the stack to depth 2 and the execution ends without an error.
\<close>

theorem handler_push_exceeds_limit:
  "Execute nan_fpu still_clock
     (NewWithConfig \<lparr>StackSize = 256, DefaultInstrLimit = 0,
        InstructionRegistry = Some (NewInstructionRegistry(128 \<mapsto> push_operand_handler))\<rparr>)
     (NewProgram [NewInstruction OpPUSHI 1, NewInstruction 128 2])
     (NewSimpleMemory 0)
     \<lparr>MaxInstructions = 0, MaxStackDepth = 1, Timeout = 0, Context = None\<rparr> =
   Some (\<lparr>InstructionCount = 2, StackDepth = 2, Halted = True, Error = None\<rparr>, None,
         \<lparr>config = \<lparr>StackSize = 256, DefaultInstrLimit = 0,
            InstructionRegistry = Some (NewInstructionRegistry(128 \<mapsto> push_operand_handler))\<rparr>,
          stack = [IntValue 1, IntValue 2], pc = 2, halted = True, instrCount = 2\<rparr>,
         NewSimpleMemory 0)"
  by (simp add: exec_simps push_operand_handler_def ctx_Push_def view_of_def absorb_def
      registry_Get_def NewInstructionRegistry_def)

section \<open>Properties of the assembler\<close>

lemmas lexer_defs = Tokenize_def NewLexer_def Tokenize_loop.simps scanToken_def IsDigit_def
  IsLetter_def Let_def scanIdentOrLabel_def advance_by_def emitTokenAt_def scanNumber_def
  ParseInt_def decimal_value_def digit_value_def emitToken_def scanComment_def

lemmas parser_defs = Parse_def Parse_loop.simps skipNewlines_def isAtEnd_def p_peek_def
  parseStatement_def parseLabelDef_def parseInstruction_def parseOperand_def

lemmas builder_defs = emit_def emit_ref_def Push_def PushInt_def builder_Load_def
  builder_Store_def builder_Pop_def builder_Dup_def builder_Swap_def builder_Over_def
  builder_Rot_def builder_Add_def builder_Sub_def builder_Mul_def builder_Div_def
  builder_Mod_def builder_Neg_def builder_Abs_def builder_Inc_def builder_Dec_def
  builder_And_def builder_Or_def builder_Not_def builder_Xor_def builder_Eq_def
  builder_Ne_def builder_Gt_def builder_Lt_def builder_Ge_def builder_Le_def
  builder_LoadD_def builder_StoreD_def builder_Ret_def builder_Halt_def builder_Nop_def
  builder_Sqrt_def builder_Sin_def builder_Cos_def builder_Tan_def builder_Min_def
  builder_Max_def builder_Floor_def builder_Ceil_def builder_Round_def builder_Label_def
  builder_Jmp_def builder_JmpZ_def builder_JmpNZ_def builder_Call_def builder_Custom_def
  NewProgramBuilder_def Build_def NewProgramWithMetadata_def

lemmas asm_defs = Assemble_def generate_def emitInstruction_def emitNoOperand_def
  emitWithOperand_def ToUpper_def makeOpcodeMap_def wrapError_def

text \<open>Characters.\<close>

lemma ident_start_not_other:
  assumes "IsLetter ch \<or> ch = CHR ''_''"
  shows "ch \<noteq> CHR '' ''" "ch \<noteq> CHR 0x09" "ch \<noteq> CHR 0x0D" "ch \<noteq> CHR 0x0A"
    "ch \<noteq> CHR '';''" "ch \<noteq> CHR ''#''" "ch \<noteq> CHR ''-''" "\<not> IsDigit ch"
  using assms by (auto simp: IsLetter_def IsDigit_def Let_def)

lemma digit_not_other:
  assumes "IsDigit ch"
  shows "ch \<noteq> CHR '' ''" "ch \<noteq> CHR 0x09" "ch \<noteq> CHR 0x0D" "ch \<noteq> CHR 0x0A"
    "ch \<noteq> CHR '';''" "ch \<noteq> CHR ''#''" "ch \<noteq> CHR ''-''" "ch \<noteq> CHR ''.''" "ch \<noteq> CHR ''+''"
  using assms by (auto simp: IsDigit_def)

lemma space_not_ident [simp]: "\<not> ident_char CHR '' ''" "\<not> ident_char CHR '':''"
  by (simp_all add: ident_char_def IsLetter_def IsDigit_def)

text \<open>One step of the lexer on an identifier, a label definition, a space, a number.\<close>

lemma Tokenize_loop_ident:
  assumes "is_identifier nm" and "r = [] \<or> \<not> ident_char (hd r) \<and> hd r \<noteq> CHR '':''"
  shows "Tokenize_loop pf \<lparr>lex_rest = nm @ r, lex_line = ln, lex_column = c, lex_tokens = toks\<rparr> =
     Tokenize_loop pf \<lparr>lex_rest = r, lex_line = ln, lex_column = c + int (length nm),
       lex_tokens = toks @ [\<lparr>tok_Type = TokenIdent, tok_Value = nm, tok_Line = ln,
                             tok_Column = c\<rparr>]\<rparr>"
proof -
  from assms(1) obtain ch cs where nm: "nm = ch # cs" and ch: "IsLetter ch \<or> ch = CHR ''_''"
    and all: "\<forall>x\<in>set nm. ident_char x"
    by (cases nm) (auto simp: is_identifier_def list_all_iff)
  have tw: "takeWhile (\<lambda>ch. IsLetter ch \<or> IsDigit ch \<or> ch = CHR ''_'') (nm @ r) = nm"
  proof (cases r)
    case Nil
    with all show ?thesis by (simp add: ident_char_def)
  next
    case (Cons x xs)
    with assms(2) have "\<not> (IsLetter x \<or> IsDigit x \<or> x = CHR ''_'')"
      by (simp add: ident_char_def)
    with all Cons show ?thesis
      by (simp add: takeWhile_append2 ident_char_def)
  qed
  have sc: "scanIdentOrLabel \<lparr>lex_rest = nm @ r, lex_line = ln, lex_column = c, lex_tokens = toks\<rparr> =
     (None, \<lparr>lex_rest = r, lex_line = ln, lex_column = c + int (length nm),
       lex_tokens = toks @ [\<lparr>tok_Type = TokenIdent, tok_Value = nm, tok_Line = ln,
                             tok_Column = c\<rparr>]\<rparr>)"
    using assms(2)
    by (auto simp: scanIdentOrLabel_def Let_def tw advance_by_def emitTokenAt_def)
  have st: "scanToken pf \<lparr>lex_rest = nm @ r, lex_line = ln, lex_column = c, lex_tokens = toks\<rparr> =
     scanIdentOrLabel \<lparr>lex_rest = nm @ r, lex_line = ln, lex_column = c, lex_tokens = toks\<rparr>"
    using ident_start_not_other [OF ch] ch
    by (simp add: scanToken_def nm)
  have ne: "nm @ r \<noteq> []" "nm @ CHR '':'' # r \<noteq> []" using nm by simp_all
  show ?thesis
    by (subst Tokenize_loop.simps) (simp only: st sc ne Lexer.simps if_False prod.case option.case)
qed

lemma Tokenize_loop_label:
  assumes "is_identifier nm"
  shows "Tokenize_loop pf \<lparr>lex_rest = nm @ CHR '':'' # r, lex_line = ln, lex_column = c,
        lex_tokens = toks\<rparr> =
     Tokenize_loop pf \<lparr>lex_rest = r, lex_line = ln, lex_column = c + int (length nm) + 1,
       lex_tokens = toks @ [\<lparr>tok_Type = TokenLabel, tok_Value = nm, tok_Line = ln,
                             tok_Column = c\<rparr>]\<rparr>"
proof -
  from assms(1) obtain ch cs where nm: "nm = ch # cs" and ch: "IsLetter ch \<or> ch = CHR ''_''"
    and all: "\<forall>x\<in>set nm. ident_char x"
    by (cases nm) (auto simp: is_identifier_def list_all_iff)
  have "\<not> (IsLetter CHR '':'' \<or> IsDigit CHR '':'' \<or> CHR '':'' = CHR ''_'')"
    by (simp add: IsLetter_def IsDigit_def)
  with all
  have tw: "takeWhile (\<lambda>ch. IsLetter ch \<or> IsDigit ch \<or> ch = CHR ''_'') (nm @ CHR '':'' # r) = nm"
    by (simp add: takeWhile_append2 ident_char_def)
  have sc: "scanIdentOrLabel \<lparr>lex_rest = nm @ CHR '':'' # r, lex_line = ln, lex_column = c,
        lex_tokens = toks\<rparr> =
     (None, \<lparr>lex_rest = r, lex_line = ln, lex_column = c + int (length nm) + 1,
       lex_tokens = toks @ [\<lparr>tok_Type = TokenLabel, tok_Value = nm, tok_Line = ln,
                             tok_Column = c\<rparr>]\<rparr>)"
    by (simp add: scanIdentOrLabel_def Let_def tw advance_by_def emitTokenAt_def)
  have st: "scanToken pf \<lparr>lex_rest = nm @ CHR '':'' # r, lex_line = ln, lex_column = c,
        lex_tokens = toks\<rparr> =
     scanIdentOrLabel \<lparr>lex_rest = nm @ CHR '':'' # r, lex_line = ln, lex_column = c,
        lex_tokens = toks\<rparr>"
    using ident_start_not_other [OF ch] ch
    by (simp add: scanToken_def nm)
  have ne: "nm @ r \<noteq> []" "nm @ CHR '':'' # r \<noteq> []" using nm by simp_all
  show ?thesis
    by (subst Tokenize_loop.simps) (simp only: st sc ne Lexer.simps if_False prod.case option.case)
qed

lemma Tokenize_loop_space:
  "Tokenize_loop pf \<lparr>lex_rest = CHR '' '' # r, lex_line = ln, lex_column = c, lex_tokens = toks\<rparr> =
   Tokenize_loop pf \<lparr>lex_rest = r, lex_line = ln, lex_column = c + 1, lex_tokens = toks\<rparr>"
  by (subst Tokenize_loop.simps) (simp add: scanToken_def advance_by_def)

lemma Tokenize_loop_end:
  "Tokenize_loop pf \<lparr>lex_rest = [], lex_line = ln, lex_column = c, lex_tokens = toks\<rparr> =
   Inr (toks @ [\<lparr>tok_Type = TokenEOF, tok_Value = [], tok_Line = ln, tok_Column = c\<rparr>])"
  by (subst Tokenize_loop.simps) simp

lemma Tokenize_loop_number_end:
  assumes "int_literal lit"
  shows "Tokenize_loop pf \<lparr>lex_rest = lit, lex_line = ln, lex_column = c, lex_tokens = toks\<rparr> =
     Inr (toks @ [\<lparr>tok_Type = TokenNumber, tok_Value = lit, tok_Line = ln, tok_Column = c\<rparr>,
                  \<lparr>tok_Type = TokenEOF, tok_Value = [], tok_Line = ln,
                    tok_Column = c + int (length lit)\<rparr>])"
proof -
  define sign where "sign = (if lit \<noteq> [] \<and> hd lit = CHR ''-'' then ''-'' else [])"
  define ds where "ds = (if lit \<noteq> [] \<and> hd lit = CHR ''-'' then tl lit else lit)"
  from assms have ds: "ds \<noteq> []" "list_all IsDigit ds" and pi: "ParseInt lit \<noteq> None"
    by (simp_all add: int_literal_def ds_def Let_def)
  have lit: "lit = sign @ ds"
    by (cases lit) (auto simp: sign_def ds_def)
  from ds obtain d ds' where dd: "ds = d # ds'" and d: "IsDigit d" by (cases ds) auto
  have sign_cases: "sign = [] \<or> sign = ''-''" by (simp add: sign_def)
  have "CHR ''.'' \<notin> set ds"
    using ds(2) digit_not_other(8) by (auto simp: list_all_iff)
  moreover have "CHR ''.'' \<notin> set sign" using sign_cases by auto
  ultimately have nodot: "CHR ''.'' \<notin> set lit" by (subst lit) simp
  have tw: "takeWhile (\<lambda>ch. IsDigit ch \<or> ch = CHR ''.'') (drop (length sign) lit) = ds"
    using ds(2) by (simp add: lit list_all_iff)
  have sign': "(if lit \<noteq> [] \<and> hd lit = CHR ''-'' then ''-'' else []) = sign"
    by (simp add: sign_def)
  from pi obtain i where i: "ParseInt lit = Some i" by auto
  have sn: "scanNumber pf \<lparr>lex_rest = lit, lex_line = ln, lex_column = c, lex_tokens = toks\<rparr> =
     (None, \<lparr>lex_rest = [], lex_line = ln, lex_column = c + int (length lit),
        lex_tokens = toks @ [\<lparr>tok_Type = TokenNumber, tok_Value = lit, tok_Line = ln,
                              tok_Column = c\<rparr>]\<rparr>)"
  proof -
    have val: "sign @ takeWhile (\<lambda>ch. IsDigit ch \<or> ch = CHR ''.'') (drop (length sign) lit) = lit"
      using tw lit by simp
    show ?thesis
      apply (simp only: scanNumber_def Let_def Lexer.simps sign' val)
      apply (simp add: nodot i advance_by_def emitTokenAt_def)
      done
  qed
  have st: "scanToken pf \<lparr>lex_rest = lit, lex_line = ln, lex_column = c, lex_tokens = toks\<rparr> =
     scanNumber pf \<lparr>lex_rest = lit, lex_line = ln, lex_column = c, lex_tokens = toks\<rparr>"
  proof (cases "sign = []")
    case True
    with lit dd have "lit = d # ds'" by simp
    with digit_not_other [OF d] d show ?thesis by (simp add: scanToken_def)
  next
    case False
    with sign_cases have "sign = ''-''" by simp
    with lit dd have "lit = CHR ''-'' # d # ds'" by simp
    with d show ?thesis by (simp add: scanToken_def IsDigit_def)
  qed
  have ne: "lit \<noteq> []" using lit ds by simp
  show ?thesis
    by (subst Tokenize_loop.simps) (simp add: st sn ne Tokenize_loop_end)
qed


text \<open>The tokens of the three shapes of source line.\<close>

lemma Tokenize_numeric_line:
  assumes "is_identifier nm" and "int_literal lit"
  shows "Tokenize pf (nm @ '' '' @ lit) =
     Inr [\<lparr>tok_Type = TokenIdent, tok_Value = nm, tok_Line = 1, tok_Column = 1\<rparr>,
          \<lparr>tok_Type = TokenNumber, tok_Value = lit, tok_Line = 1,
            tok_Column = 1 + int (length nm) + 1\<rparr>,
          \<lparr>tok_Type = TokenEOF, tok_Value = [], tok_Line = 1,
            tok_Column = 1 + int (length nm) + 1 + int (length lit)\<rparr>]"
proof -
  have "Tokenize pf (nm @ '' '' @ lit) =
      Tokenize_loop pf \<lparr>lex_rest = nm @ (CHR '' '' # lit), lex_line = 1, lex_column = 1,
        lex_tokens = []\<rparr>"
    by (simp add: Tokenize_def NewLexer_def)
  also have "\<dots> = Tokenize_loop pf \<lparr>lex_rest = CHR '' '' # lit, lex_line = 1,
      lex_column = 1 + int (length nm),
      lex_tokens = [] @ [\<lparr>tok_Type = TokenIdent, tok_Value = nm, tok_Line = 1, tok_Column = 1\<rparr>]\<rparr>"
    by (rule Tokenize_loop_ident [OF assms(1)]) simp
  also have "\<dots> = Tokenize_loop pf \<lparr>lex_rest = lit, lex_line = 1,
      lex_column = 1 + int (length nm) + 1,
      lex_tokens = [] @ [\<lparr>tok_Type = TokenIdent, tok_Value = nm, tok_Line = 1, tok_Column = 1\<rparr>]\<rparr>"
    by (rule Tokenize_loop_space)
  finally show ?thesis
    by (simp add: Tokenize_loop_number_end [OF assms(2)])
qed

lemma Tokenize_label_line:
  assumes "is_identifier nm" and "is_identifier lbl"
  shows "Tokenize pf (lbl @ '': '' @ nm @ '' '' @ lbl) =
     Inr [\<lparr>tok_Type = TokenLabel, tok_Value = lbl, tok_Line = 1, tok_Column = 1\<rparr>,
          \<lparr>tok_Type = TokenIdent, tok_Value = nm, tok_Line = 1,
            tok_Column = 1 + int (length lbl) + 1 + 1\<rparr>,
          \<lparr>tok_Type = TokenIdent, tok_Value = lbl, tok_Line = 1,
            tok_Column = 1 + int (length lbl) + 1 + 1 + int (length nm) + 1\<rparr>,
          \<lparr>tok_Type = TokenEOF, tok_Value = [], tok_Line = 1,
            tok_Column = 1 + int (length lbl) + 1 + 1 + int (length nm) + 1 + int (length lbl)\<rparr>]"
proof -
  let ?t1 = "\<lparr>tok_Type = TokenLabel, tok_Value = lbl, tok_Line = 1, tok_Column = 1\<rparr>"
  let ?t2 = "\<lparr>tok_Type = TokenIdent, tok_Value = nm, tok_Line = 1,
            tok_Column = 1 + int (length lbl) + 1 + 1\<rparr>"
  have "Tokenize pf (lbl @ '': '' @ nm @ '' '' @ lbl) =
      Tokenize_loop pf \<lparr>lex_rest = lbl @ CHR '':'' # (CHR '' '' # nm @ (CHR '' '' # lbl)),
        lex_line = 1, lex_column = 1, lex_tokens = []\<rparr>"
    by (simp add: Tokenize_def NewLexer_def)
  also have "\<dots> = Tokenize_loop pf \<lparr>lex_rest = CHR '' '' # nm @ (CHR '' '' # lbl),
      lex_line = 1, lex_column = 1 + int (length lbl) + 1, lex_tokens = [] @ [?t1]\<rparr>"
    by (rule Tokenize_loop_label [OF assms(2)])
  also have "\<dots> = Tokenize_loop pf \<lparr>lex_rest = nm @ (CHR '' '' # lbl),
      lex_line = 1, lex_column = 1 + int (length lbl) + 1 + 1, lex_tokens = [] @ [?t1]\<rparr>"
    by (rule Tokenize_loop_space)
  also have "\<dots> = Tokenize_loop pf \<lparr>lex_rest = CHR '' '' # lbl,
      lex_line = 1, lex_column = 1 + int (length lbl) + 1 + 1 + int (length nm),
      lex_tokens = ([] @ [?t1]) @ [?t2]\<rparr>"
    by (rule Tokenize_loop_ident [OF assms(1)]) simp
  also have "\<dots> = Tokenize_loop pf \<lparr>lex_rest = lbl @ [],
      lex_line = 1, lex_column = 1 + int (length lbl) + 1 + 1 + int (length nm) + 1,
      lex_tokens = ([] @ [?t1]) @ [?t2]\<rparr>"
    by (simp add: Tokenize_loop_space)
  also have "\<dots> = Tokenize_loop pf \<lparr>lex_rest = [],
      lex_line = 1, lex_column = 1 + int (length lbl) + 1 + 1 + int (length nm) + 1 + int (length lbl),
      lex_tokens = (([] @ [?t1]) @ [?t2]) @ [\<lparr>tok_Type = TokenIdent, tok_Value = lbl,
         tok_Line = 1, tok_Column = 1 + int (length lbl) + 1 + 1 + int (length nm) + 1\<rparr>]\<rparr>"
    by (rule Tokenize_loop_ident [OF assms(2)]) simp
  finally show ?thesis
    by (simp add: Tokenize_loop_end)
qed

text \<open>Assembling the three shapes of source line.\<close>

lemma ParseInt_literal: "int_literal lit \<Longrightarrow> \<exists>i. ParseInt lit = Some i"
  by (auto simp: int_literal_def Let_def)

lemma name_identifiers:
  "name \<in> set standard_names \<Longrightarrow> is_identifier name"
  by (auto simp: standard_names_def spec_opcode_assignment_def is_identifier_def ident_char_def
      IsLetter_def IsDigit_def)

lemma assemble_plain_all:
  "\<forall>name\<in>set standard_names.
     name \<notin> set not_yet_implemented \<longrightarrow> name \<notin> set numeric_operand_names \<longrightarrow>
     name \<notin> set label_operand_names \<longrightarrow>
     Assemble pf u a name =
       Inr \<lparr>instructions = [NewInstruction (the (map_of spec_opcode_assignment name)) 0],
            symbols = Some [], metadata = zero_metadata\<rparr>"
  by (simp add: standard_names_def spec_opcode_assignment_def not_yet_implemented_def
      numeric_operand_names_def label_operand_names_def lexer_defs parser_defs builder_defs
      asm_defs opcode_defs NewInstruction_def)

lemma assemble_plain:
  assumes "name \<in> set standard_names" and "name \<notin> set not_yet_implemented"
    and "name \<notin> set numeric_operand_names" and "name \<notin> set label_operand_names"
  shows "Assemble pf u a name =
     Inr \<lparr>instructions = [NewInstruction (the (map_of spec_opcode_assignment name)) 0],
          symbols = Some [], metadata = zero_metadata\<rparr>"
  using assemble_plain_all [of pf u a] assms by blast

lemma generate_numeric:
  assumes "name \<in> set numeric_operand_names"
  shows "generate u a
       [\<lparr>stmt_Type = StmtInstruction, stmt_Label = [], stmt_Opcode = name,
         stmt_Operand = Some \<lparr>opnd_Type = OperandNumber, opnd_Number = n,
                               opnd_FloatValue = Float64frombits 0, opnd_IsFloat = False,
                               opnd_Label = []\<rparr>,
         stmt_Line = 1, stmt_Column = 1\<rparr>] =
     Inr \<lparr>instructions =
            [NewInstruction (the (map_of spec_opcode_assignment name))
               (if name = ''PUSH'' then f64_to_int32 u (f64_of_int (sint n)) else ucast n)],
          symbols = Some [], metadata = zero_metadata\<rparr>"
proof -
  from assms consider "name = ''PUSH''" | "name = ''PUSHI''" | "name = ''LOAD''" | "name = ''STORE''"
    by (auto simp: numeric_operand_names_def)
  then show ?thesis
    by cases
      (simp_all add: builder_defs generate_def emitInstruction_def emitWithOperand_def
        ToUpper_def makeOpcodeMap_def spec_opcode_assignment_def opcode_defs NewInstruction_def)
qed

lemma assemble_numeric:
  assumes "name \<in> set numeric_operand_names" and "int_literal lit"
  shows "\<exists>operand. Assemble pf u a (name @ '' '' @ lit) =
     Inr \<lparr>instructions = [NewInstruction (the (map_of spec_opcode_assignment name)) operand],
          symbols = Some [], metadata = zero_metadata\<rparr>"
proof -
  from assms(1) have "name \<in> set standard_names"
    by (auto simp: numeric_operand_names_def standard_names_def spec_opcode_assignment_def)
  note tk = Tokenize_numeric_line [OF name_identifiers [OF this] assms(2)]
  from ParseInt_literal [OF assms(2)] obtain i where i: "ParseInt lit = Some i" ..
  have "Assemble pf u a (name @ '' '' @ lit) =
     Inr \<lparr>instructions =
            [NewInstruction (the (map_of spec_opcode_assignment name))
               (if name = ''PUSH'' then f64_to_int32 u (f64_of_int (sint (word_of_int i :: int64)))
                else ucast (word_of_int i :: int64))],
          symbols = Some [], metadata = zero_metadata\<rparr>"
    unfolding Assemble_def tk
    by (simp add: parser_defs i generate_numeric [OF assms(1)])
  then show ?thesis by blast
qed

lemma generate_label:
  assumes "name \<in> set label_operand_names"
  shows "generate u a
       [\<lparr>stmt_Type = StmtLabel, stmt_Label = lbl, stmt_Opcode = [], stmt_Operand = None,
         stmt_Line = 1, stmt_Column = 1\<rparr>,
        \<lparr>stmt_Type = StmtInstruction, stmt_Label = [], stmt_Opcode = name,
         stmt_Operand = Some \<lparr>opnd_Type = OperandLabel, opnd_Number = 0,
                               opnd_FloatValue = Float64frombits 0, opnd_IsFloat = False,
                               opnd_Label = lbl\<rparr>,
         stmt_Line = 1, stmt_Column = c\<rparr>] =
     Inr \<lparr>instructions = [NewInstruction (the (map_of spec_opcode_assignment name)) 0],
          symbols = Some [(0, lbl)], metadata = zero_metadata\<rparr>"
proof -
  from assms consider "name = ''JMP''" | "name = ''JMPZ''" | "name = ''JMPNZ''" | "name = ''CALL''"
    by (auto simp: label_operand_names_def)
  then show ?thesis
    by cases
      (simp_all add: builder_defs generate_def emitInstruction_def emitWithOperand_def
        ToUpper_def makeOpcodeMap_def spec_opcode_assignment_def opcode_defs NewInstruction_def)
qed

lemma assemble_label:
  assumes "name \<in> set label_operand_names" and "is_identifier lbl"
  shows "Assemble pf u a (lbl @ '': '' @ name @ '' '' @ lbl) =
     Inr \<lparr>instructions = [NewInstruction (the (map_of spec_opcode_assignment name)) 0],
          symbols = Some [(0, lbl)], metadata = zero_metadata\<rparr>"
proof -
  from assms(1) have "name \<in> set standard_names"
    by (auto simp: label_operand_names_def standard_names_def spec_opcode_assignment_def)
  note tk = Tokenize_label_line [OF name_identifiers [OF this] assms(2)]
  show ?thesis
    unfolding Assemble_def tk
    by (simp add: parser_defs generate_label [OF assms(1)])
qed

lemma assemble_not_yet_implemented_all:
  "\<forall>name\<in>set not_yet_implemented.
     Assemble pf u a name =
      Inl (AssemblerError 0 0 (ErrorfW (AtLine 1)
        (Errorf (if name = ''TRUNC'' then TruncNotYetImplemented
                 else OpcodeNotYetImplemented (the (map_of spec_opcode_assignment name))))) [])"
  by (simp add: not_yet_implemented_def spec_opcode_assignment_def lexer_defs parser_defs
      builder_defs asm_defs opcode_defs)

text \<open>
  C5 (as amended). For every standard opcode name other than \<open>ASIN\<close>, \<open>ACOS\<close>, \<open>ATAN\<close>,
  \<open>ATAN2\<close>, \<open>LOG\<close>, \<open>LOG10\<close>, \<open>EXP\<close>, \<open>POW\<close> and \<open>TRUNC\<close>, a source line consisting of
  that mnemonic with its required operand shape (none; an integer literal for \<open>PUSH\<close>,
  \<open>PUSHI\<close>, \<open>LOAD\<close> and \<open>STORE\<close>; a label, defined on the same line, for \<open>JMP\<close>, \<open>JMPZ\<close>,
  \<open>JMPNZ\<close> and \<open>CALL\<close>) assembles into one instruction, which carries the opcode that the
  specification assigns to the name. For each of the nine names excepted, the assembler
  refuses the line: the error, reported for line 1, is that of \<open>emitNoOperand\<close>, which says
  that the opcode of this number, or \<open>TRUNC\<close>, is not yet implemented.
\<close>

theorem assemble_standard_mnemonic:
  assumes "name \<in> set standard_names" and "int_literal lit" and "is_identifier lbl"
  shows "(name \<notin> set not_yet_implemented \<longrightarrow>
      (\<exists>p. Assemble pf u a (source_line name lit lbl) = Inr p \<and>
           map Opcode (instructions p) = [the (map_of spec_opcode_assignment name)])) \<and>
     (name \<in> set not_yet_implemented \<longrightarrow>
      Assemble pf u a (source_line name lit lbl) =
        Inl (AssemblerError 0 0 (ErrorfW (AtLine 1)
          (Errorf (if name = ''TRUNC'' then TruncNotYetImplemented
                   else OpcodeNotYetImplemented (the (map_of spec_opcode_assignment name)))))
          []))"
proof (intro conjI impI)
  assume impl: "name \<notin> set not_yet_implemented"
  show "\<exists>p. Assemble pf u a (source_line name lit lbl) = Inr p \<and>
           map Opcode (instructions p) = [the (map_of spec_opcode_assignment name)]"
  proof (cases "name \<in> set numeric_operand_names")
    case True
    from assemble_numeric [OF True assms(2), of pf u a] True show ?thesis
      by (auto simp: source_line_def NewInstruction_def)
  next
    case nn: False
    show ?thesis
    proof (cases "name \<in> set label_operand_names")
      case True
      from assemble_label [OF True assms(3), of pf u a] True nn show ?thesis
        by (simp add: source_line_def NewInstruction_def)
    next
      case False
      from assemble_plain [OF assms(1) impl nn False, of pf u a] nn False show ?thesis
        by (simp add: source_line_def NewInstruction_def)
    qed
  qed
next
  assume ny: "name \<in> set not_yet_implemented"
  then have "source_line name lit lbl = name"
    by (auto simp: source_line_def not_yet_implemented_def numeric_operand_names_def
        label_operand_names_def)
  with assemble_not_yet_implemented_all [of pf u a] ny
  show "Assemble pf u a (source_line name lit lbl) =
        Inl (AssemblerError 0 0 (ErrorfW (AtLine 1)
          (Errorf (if name = ''TRUNC'' then TruncNotYetImplemented
                   else OpcodeNotYetImplemented (the (map_of spec_opcode_assignment name)))))
          [])"
    by simp
qed

text \<open>
  The theorem at \<open>PUSHI 42\<close>, which assembles into one \<open>PUSHI\<close> instruction (opcode 1), and
  at \<open>TRUNC\<close>, which is refused.
\<close>

theorem assemble_standard_mnemonic_witness:
  "(''PUSHI'' \<in> set standard_names \<and> int_literal ''42'' \<and> is_identifier ''L'' \<and>
    ''PUSHI'' \<notin> set not_yet_implemented \<and>
    (\<exists>p. Assemble (\<lambda>s. None) nan_fpu NewAssembler (source_line ''PUSHI'' ''42'' ''L'') = Inr p \<and>
         map Opcode (instructions p) = [1])) \<and>
   (''TRUNC'' \<in> set standard_names \<and> ''TRUNC'' \<in> set not_yet_implemented \<and>
    Assemble (\<lambda>s. None) nan_fpu NewAssembler (source_line ''TRUNC'' ''42'' ''L'') =
      Inl (AssemblerError 0 0 (ErrorfW (AtLine 1) (Errorf TruncNotYetImplemented)) []))"
proof -
  have a: "''PUSHI'' \<in> set standard_names" "''TRUNC'' \<in> set standard_names"
    by (simp_all add: standard_names_def spec_opcode_assignment_def)
  have b: "int_literal ''42''"
    by (simp add: int_literal_def IsDigit_def ParseInt_def decimal_value_def digit_value_def)
  have c: "is_identifier ''L''"
    by (simp add: is_identifier_def ident_char_def IsLetter_def IsDigit_def)
  have d: "''PUSHI'' \<notin> set not_yet_implemented" "''TRUNC'' \<in> set not_yet_implemented"
    by (simp_all add: not_yet_implemented_def)
  have e: "the (map_of spec_opcode_assignment ''PUSHI'') = 1"
    by (simp add: spec_opcode_assignment_def)
  from assemble_standard_mnemonic [OF a(1) b c, of "\<lambda>s. None" nan_fpu NewAssembler]
    assemble_standard_mnemonic [OF a(2) b c, of "\<lambda>s. None" nan_fpu NewAssembler] a b c d e
  show ?thesis by simp
qed

text \<open>C5 as stated fails: the source line \<open>ASIN\<close> does not assemble.\<close>

theorem asin_not_assembled_counterexample:
  "Assemble (\<lambda>s. None) nan_fpu NewAssembler ''ASIN'' =
     Inl (AssemblerError 0 0 (ErrorfW (AtLine 1) (Errorf (OpcodeNotYetImplemented OpASIN))) [])"
  by (simp add: lexer_defs parser_defs builder_defs asm_defs opcode_defs)

text \<open>
  C6: a source that defines the label \<open>L\<close> twice, before and after a \<open>NOP\<close>, and jumps to
  it. The assembler reports nothing and returns a program: the jump goes to address 1, the
  address of the second definition, and the symbol table holds that address only.
\<close>

theorem duplicate_label_rebinds:
  "Assemble (\<lambda>s. None) nan_fpu NewAssembler ''L:\<newline>NOP\<newline>L:\<newline>JMP L\<newline>'' =
     Inr \<lparr>instructions = [NewInstruction OpNOP 0, NewInstruction OpJMP 1],
          symbols = Some [(1, ''L'')], metadata = zero_metadata\<rparr>"
  by (simp add: lexer_defs parser_defs builder_defs asm_defs opcode_defs NewInstruction_def)

end
